theory Spec2Isabelle
  imports Complex_Main
begin

section \<open>Numbers of the engine\<close>

text \<open>
  The engine computes with JavaScript numbers. A number is modelled as a finite real or
  one of the three special values that a division by zero or \<open>Math.pow\<close> can produce:
  \<open>Infinity\<close>, \<open>-Infinity\<close> and \<open>NaN\<close>. Arithmetic on finite values is exact: rounding
  error, overflow and underflow of the binary64 format are not modelled, and zero carries
  no sign (\<open>x / 0\<close> takes the sign of \<open>x\<close>).
\<close>

datatype number = Fin real | PInf | NInf | NaN

definition num_neg :: "number \<Rightarrow> number" where
  "num_neg a = (case a of Fin x \<Rightarrow> Fin (- x) | PInf \<Rightarrow> NInf | NInf \<Rightarrow> PInf | NaN \<Rightarrow> NaN)"

definition num_add :: "number \<Rightarrow> number \<Rightarrow> number" where
  "num_add a b =
     (case a of
        Fin x \<Rightarrow> (case b of Fin y \<Rightarrow> Fin (x + y) | PInf \<Rightarrow> PInf | NInf \<Rightarrow> NInf | NaN \<Rightarrow> NaN)
      | PInf \<Rightarrow> (case b of Fin y \<Rightarrow> PInf | PInf \<Rightarrow> PInf | NInf \<Rightarrow> NaN | NaN \<Rightarrow> NaN)
      | NInf \<Rightarrow> (case b of Fin y \<Rightarrow> NInf | PInf \<Rightarrow> NaN | NInf \<Rightarrow> NInf | NaN \<Rightarrow> NaN)
      | NaN \<Rightarrow> NaN)"

text \<open>An infinity of the sign of \<open>x\<close>, and \<open>NaN\<close> for \<open>x = 0\<close> (as in \<open>0 * Infinity\<close>).\<close>

definition signed_inf :: "real \<Rightarrow> number" where
  "signed_inf x = (if x = 0 then NaN else if 0 < x then PInf else NInf)"

definition num_mul :: "number \<Rightarrow> number \<Rightarrow> number" where
  "num_mul a b =
     (case a of
        Fin x \<Rightarrow> (case b of Fin y \<Rightarrow> Fin (x * y) | PInf \<Rightarrow> signed_inf x
                   | NInf \<Rightarrow> signed_inf (- x) | NaN \<Rightarrow> NaN)
      | PInf \<Rightarrow> (case b of Fin y \<Rightarrow> signed_inf y | PInf \<Rightarrow> PInf | NInf \<Rightarrow> NInf | NaN \<Rightarrow> NaN)
      | NInf \<Rightarrow> (case b of Fin y \<Rightarrow> signed_inf (- y) | PInf \<Rightarrow> NInf | NInf \<Rightarrow> PInf
                  | NaN \<Rightarrow> NaN)
      | NaN \<Rightarrow> NaN)"

definition num_div :: "number \<Rightarrow> number \<Rightarrow> number" where
  "num_div a b =
     (case a of
        Fin x \<Rightarrow> (case b of Fin y \<Rightarrow> (if y = 0 then signed_inf x else Fin (x / y))
                   | PInf \<Rightarrow> Fin 0 | NInf \<Rightarrow> Fin 0 | NaN \<Rightarrow> NaN)
      | PInf \<Rightarrow> (case b of Fin y \<Rightarrow> (if 0 \<le> y then PInf else NInf) | PInf \<Rightarrow> NaN
                  | NInf \<Rightarrow> NaN | NaN \<Rightarrow> NaN)
      | NInf \<Rightarrow> (case b of Fin y \<Rightarrow> (if 0 \<le> y then NInf else PInf) | PInf \<Rightarrow> NaN
                  | NInf \<Rightarrow> NaN | NaN \<Rightarrow> NaN)
      | NaN \<Rightarrow> NaN)"

text \<open>The comparison \<open><\<close>: false as soon as one side is \<open>NaN\<close>.\<close>

definition num_lt :: "number \<Rightarrow> number \<Rightarrow> bool" where
  "num_lt a b =
     (case a of
        Fin x \<Rightarrow> (case b of Fin y \<Rightarrow> x < y | PInf \<Rightarrow> True | NInf \<Rightarrow> False | NaN \<Rightarrow> False)
      | PInf \<Rightarrow> False
      | NInf \<Rightarrow> (case b of Fin y \<Rightarrow> True | PInf \<Rightarrow> True | NInf \<Rightarrow> False | NaN \<Rightarrow> False)
      | NaN \<Rightarrow> False)"

text \<open>Strict equality \<open>===\<close> on numbers: \<open>NaN\<close> equals nothing.\<close>

definition strict_eq :: "number \<Rightarrow> number \<Rightarrow> bool" where
  "strict_eq a b = (a \<noteq> NaN \<and> a = b)"

instantiation number :: "{plus, minus, times, inverse, ord}"
begin

definition plus_number :: "number \<Rightarrow> number \<Rightarrow> number" where
  "plus_number a b = num_add a b"

definition minus_number :: "number \<Rightarrow> number \<Rightarrow> number" where
  "minus_number a b = num_add a (num_neg b)"

definition times_number :: "number \<Rightarrow> number \<Rightarrow> number" where
  "times_number a b = num_mul a b"

definition divide_number :: "number \<Rightarrow> number \<Rightarrow> number" where
  "divide_number a b = num_div a b"

definition inverse_number :: "number \<Rightarrow> number" where
  "inverse_number a = num_div (Fin 1) a"

definition less_number :: "number \<Rightarrow> number \<Rightarrow> bool" where
  "less_number a b = num_lt a b"

definition less_eq_number :: "number \<Rightarrow> number \<Rightarrow> bool" where
  "less_eq_number a b = (num_lt a b \<or> strict_eq a b)"

instance ..

end

text \<open>\<open>isFinite\<close>, and the truthiness of a number (\<open>0\<close> and \<open>NaN\<close> are falsy).\<close>

definition isFinite :: "number \<Rightarrow> bool" where
  "isFinite a = (case a of Fin x \<Rightarrow> True | PInf \<Rightarrow> False | NInf \<Rightarrow> False | NaN \<Rightarrow> False)"

definition truthy :: "number \<Rightarrow> bool" where
  "truthy a = (case a of Fin x \<Rightarrow> x \<noteq> 0 | PInf \<Rightarrow> True | NInf \<Rightarrow> True | NaN \<Rightarrow> False)"

text \<open>\<open>a || b\<close> on a number \<open>a\<close>.\<close>

definition num_or :: "number \<Rightarrow> number \<Rightarrow> number" where
  "num_or a b = (if truthy a then a else b)"

text \<open>
  An optional field of the input is absent (\<open>undefined\<close>) or holds a finite number.
  \<open>dflt\<close> is a destructuring default (\<open>{x = d} = inputs\<close>, used only when the field is
  \<open>undefined\<close>); \<open>opt_or\<close> is \<open>x || d\<close> on a field that may still be \<open>undefined\<close>
  (\<open>undefined\<close> and \<open>0\<close> are both falsy).
\<close>

definition dflt :: "real option \<Rightarrow> number \<Rightarrow> number" where
  "dflt x d = (case x of None \<Rightarrow> d | Some v \<Rightarrow> Fin v)"

definition opt_or :: "real option \<Rightarrow> number \<Rightarrow> number" where
  "opt_or x d = (case x of None \<Rightarrow> d | Some v \<Rightarrow> num_or (Fin v) d)"

text \<open>\<open>Math.max\<close> of two numbers: \<open>NaN\<close> as soon as one argument is.\<close>

definition Math_max :: "number \<Rightarrow> number \<Rightarrow> number" where
  "Math_max a b = (if a = NaN \<or> b = NaN then NaN else if num_lt a b then b else a)"

text \<open>\<open>Math.round\<close>: the nearest integer, a half rounded towards \<open>+Infinity\<close>.\<close>

definition Math_round :: "number \<Rightarrow> number" where
  "Math_round a =
     (case a of Fin x \<Rightarrow> Fin (of_int \<lfloor>x + 1 / 2\<rfloor>) | PInf \<Rightarrow> PInf | NInf \<Rightarrow> NInf | NaN \<Rightarrow> NaN)"

text \<open>
  \<open>Math.pow\<close> on finite arguments with a non-zero exponent: an integer exponent is an
  iterated product (or its reciprocal), any other exponent needs a non-negative base.
\<close>

definition pow_fin :: "real \<Rightarrow> real \<Rightarrow> number" where
  "pow_fin x y =
     (if of_int \<lfloor>y\<rfloor> = y then
        (if 0 < y then Fin (x ^ nat \<lfloor>y\<rfloor>)
         else if x = 0 then PInf
         else Fin (1 / x ^ nat (- \<lfloor>y\<rfloor>)))
      else if x < 0 then NaN
      else if x = 0 then (if 0 < y then Fin 0 else PInf)
      else Fin (x powr y))"

definition Math_pow :: "number \<Rightarrow> number \<Rightarrow> number" where
  "Math_pow a b =
     (case b of
        NaN \<Rightarrow> NaN
      | Fin y \<Rightarrow>
          (if y = 0 then Fin 1
           else (case a of
                   NaN \<Rightarrow> NaN
                 | Fin x \<Rightarrow> pow_fin x y
                 | PInf \<Rightarrow> (if 0 < y then PInf else Fin 0)
                 | NInf \<Rightarrow> (if 0 < y
                             then (if of_int \<lfloor>y\<rfloor> = y \<and> odd \<lfloor>y\<rfloor> then NInf else PInf)
                             else Fin 0)))
      | PInf \<Rightarrow>
          (case a of
             NaN \<Rightarrow> NaN
           | Fin x \<Rightarrow> (if 1 < \<bar>x\<bar> then PInf else if \<bar>x\<bar> = 1 then NaN else Fin 0)
           | PInf \<Rightarrow> PInf
           | NInf \<Rightarrow> PInf)
      | NInf \<Rightarrow>
          (case a of
             NaN \<Rightarrow> NaN
           | Fin x \<Rightarrow> (if 1 < \<bar>x\<bar> then Fin 0 else if \<bar>x\<bar> = 1 then NaN else PInf)
           | PInf \<Rightarrow> Fin 0
           | NInf \<Rightarrow> Fin 0))"

section \<open>Data model\<close>

datatype CalculatorMode =
  SIP | LUMPSUM | STOCK | PROPERTY | LOAN | COMPOUND | ROI | TAX | GOAL | RETIREMENT

text \<open>
  The input record. \<open>timePeriodYears\<close> and \<open>interestRate\<close> are read without a default
  and without \<open>||\<close>, so they are always numbers; every other field may be absent. Inputs
  are finite numbers.
\<close>

record InvestmentInputs =
  initialInvestment :: "real option"
  monthlyContribution :: "real option"
  stepUpRate :: "real option"
  timePeriodYears :: real
  interestRate :: real
  compoundingFrequency :: "real option"
  inflationRate :: "real option"
  taxRate :: "real option"
  expenseRatio :: "real option"
  startYear :: "real option"
  buyPrice :: "real option"
  sellPrice :: "real option"
  quantity :: "real option"
  dividendYield :: "real option"
  propertyPrice :: "real option"
  rentalIncome :: "real option"
  monthlyExpenses :: "real option"
  appreciationRate :: "real option"
  annualIncome :: "real option"
  deductions :: "real option"
  targetAmount :: "real option"
  currentAge :: "real option"
  retirementAge :: "real option"

record YearData =
  year :: number
  label :: number
  invested :: number
  interest :: number
  total_value :: number
  realValue :: number

record CalculationResult =
  totalInvested :: number
  finalValue :: number
  totalInterest :: number
  taxPayable :: number
  postTaxValue :: number
  yearlyData :: "YearData list"
  monthlyPayment :: number
  roiPercentage :: number
  cagr :: number
  durationYears :: number
  doublingTime :: number
  purchasingPowerLoss :: number

text \<open>
  The mutable locals of \<open>calculateInvestment\<close> that the \<open>switch\<close> assigns and the common
  post-calculation reads (all of them start at \<open>0\<close>, the schedule at \<open>[]\<close>).
\<close>

record Locals =
  l_totalInvested :: number
  l_finalValue :: number
  l_yearlyData :: "YearData list"
  l_monthlyPayment :: number
  l_roiPercentage :: number

section \<open>Shared derived quantities\<close>

definition effectiveRate :: "InvestmentInputs \<Rightarrow> number" where
  "effectiveRate inp =
     Math_max (Fin 0) (Fin (interestRate inp) - num_or (dflt (expenseRatio inp) (Fin 0)) (Fin 0))"

definition rate_r :: "InvestmentInputs \<Rightarrow> number" where
  "rate_r inp = effectiveRate inp / Fin 100"

text \<open>
  \<open>duration\<close>: \<open>timePeriodYears\<close>, overridden in RETIREMENT mode when \<open>currentAge &&
  retirementAge\<close> is truthy. It is a difference or a maximum of finite inputs, hence
  finite, and is kept as a real.
\<close>

definition duration :: "CalculatorMode \<Rightarrow> InvestmentInputs \<Rightarrow> real" where
  "duration mode inp =
     (if mode = RETIREMENT then
        (case currentAge inp of
           None \<Rightarrow> timePeriodYears inp
         | Some ca \<Rightarrow>
             (case retirementAge inp of
                None \<Rightarrow> timePeriodYears inp
              | Some ra \<Rightarrow> if ca \<noteq> 0 \<and> ra \<noteq> 0 then max 1 (ra - ca) else timePeriodYears inp))
      else timePeriodYears inp)"

text \<open>
  \<open>for (let i = 1; i <= m; i++)\<close> runs its body for \<open>i = 1, ..., \<lfloor>m\<rfloor>\<close>, and not at all
  when \<open>m < 1\<close>.
\<close>

definition trip_count :: "real \<Rightarrow> nat" where
  "trip_count m = nat \<lfloor>m\<rfloor>"

definition for_loop :: "real \<Rightarrow> (nat \<Rightarrow> 's \<Rightarrow> 's) \<Rightarrow> 's \<Rightarrow> 's" where
  "for_loop m body s = fold body [1 ..< Suc (trip_count m)] s"

definition inflationFactor :: "InvestmentInputs \<Rightarrow> number \<Rightarrow> number" where
  "inflationFactor inp y = Math_pow (Fin 1 + dflt (inflationRate inp) (Fin 0) / Fin 100) y"

definition start_year :: "real \<Rightarrow> InvestmentInputs \<Rightarrow> number" where
  \<comment> \<open>\<open>startYear = new Date().getFullYear()\<close>; \<open>now\<close> is the calendar year of the call\<close>
  "start_year now inp = dflt (startYear inp) (Fin now)"

section \<open>Mode strategies\<close>

subsection \<open>SIP and RETIREMENT\<close>

definition sip_step ::
  "real \<Rightarrow> InvestmentInputs \<Rightarrow> nat \<Rightarrow> number \<times> number \<times> number \<times> YearData list
     \<Rightarrow> number \<times> number \<times> number \<times> YearData list" where
  "sip_step now inp i s =
     (case s of (currentBalance, currentInvested, currentMonthlyContribution, rows) \<Rightarrow>
        let monthlyRate = rate_r inp / Fin 12;
            balance1 = currentBalance * (Fin 1 + monthlyRate);
            balance2 = balance1 + currentMonthlyContribution;
            invested2 = currentInvested + currentMonthlyContribution
        in if i mod 12 = 0 then
             let stepUp = dflt (stepUpRate inp) (Fin 0);
                 contribution2 =
                   (if Fin 0 < stepUp
                    then currentMonthlyContribution * (Fin 1 + stepUp / Fin 100)
                    else currentMonthlyContribution);
                 y = Fin (real (i div 12))
             in (balance2, invested2, contribution2,
                 rows @ [\<lparr>year = y, label = start_year now inp + y,
                           invested = Math_round invested2,
                           interest = Math_round (balance2 - invested2),
                           total_value = Math_round balance2,
                           realValue = Math_round (balance2 / inflationFactor inp y)\<rparr>])
           else (balance2, invested2, currentMonthlyContribution, rows))"

definition sip_strategy :: "real \<Rightarrow> real \<Rightarrow> InvestmentInputs \<Rightarrow> Locals" where
  "sip_strategy now d inp =
     (let initial = dflt (initialInvestment inp) (Fin 0);
          s = for_loop (d * 12) (sip_step now inp)
                (initial, initial, dflt (monthlyContribution inp) (Fin 0), [])
      in case s of (currentBalance, currentInvested, currentMonthlyContribution, rows) \<Rightarrow>
           \<lparr>l_totalInvested = currentInvested, l_finalValue = currentBalance,
            l_yearlyData = rows, l_monthlyPayment = Fin 0, l_roiPercentage = Fin 0\<rparr>)"

subsection \<open>GOAL\<close>

definition goal_target :: "InvestmentInputs \<Rightarrow> number" where
  "goal_target inp = opt_or (targetAmount inp) (Fin 1000000)"

definition goal_remainingTarget :: "real \<Rightarrow> InvestmentInputs \<Rightarrow> number" where
  "goal_remainingTarget d inp =
     (let ratePerMonth = rate_r inp / Fin 12;
          nMonths = Fin (d * 12);
          lumpsumCompounded =
            dflt (initialInvestment inp) (Fin 0) * Math_pow (Fin 1 + ratePerMonth) nMonths
      in goal_target inp - lumpsumCompounded)"

definition goal_monthlyPayment :: "real \<Rightarrow> InvestmentInputs \<Rightarrow> number" where
  "goal_monthlyPayment d inp =
     (let ratePerMonth = rate_r inp / Fin 12;
          nMonths = Fin (d * 12);
          remainingTarget = goal_remainingTarget d inp
      in if remainingTarget \<le> Fin 0 then Fin 0
         else if strict_eq ratePerMonth (Fin 0) then remainingTarget / nMonths
         else remainingTarget * ratePerMonth / (Math_pow (Fin 1 + ratePerMonth) nMonths - Fin 1))"

definition goal_step ::
  "real \<Rightarrow> InvestmentInputs \<Rightarrow> number \<Rightarrow> nat \<Rightarrow> number \<times> number \<times> YearData list
     \<Rightarrow> number \<times> number \<times> YearData list" where
  "goal_step now inp payment i s =
     (case s of (currentBalance, currentInvested, rows) \<Rightarrow>
        let ratePerMonth = rate_r inp / Fin 12;
            balance2 = currentBalance * (Fin 1 + ratePerMonth) + payment;
            invested2 = currentInvested + payment
        in if i mod 12 = 0 then
             let y = Fin (real (i div 12))
             in (balance2, invested2,
                 rows @ [\<lparr>year = y, label = start_year now inp + y,
                           invested = Math_round invested2,
                           interest = Math_round (balance2 - invested2),
                           total_value = Math_round balance2,
                           realValue = Math_round (balance2 / inflationFactor inp y)\<rparr>])
           else (balance2, invested2, rows))"

definition goal_strategy :: "real \<Rightarrow> real \<Rightarrow> InvestmentInputs \<Rightarrow> Locals" where
  "goal_strategy now d inp =
     (let initial = dflt (initialInvestment inp) (Fin 0);
          payment = goal_monthlyPayment d inp;
          s = for_loop (d * 12) (goal_step now inp payment) (initial, initial, [])
      in case s of (currentBalance, currentInvested, rows) \<Rightarrow>
           \<lparr>l_totalInvested = currentInvested, l_finalValue = currentBalance,
            l_yearlyData = rows, l_monthlyPayment = payment, l_roiPercentage = Fin 0\<rparr>)"

subsection \<open>LUMPSUM and COMPOUND\<close>

definition compound_n :: "CalculatorMode \<Rightarrow> InvestmentInputs \<Rightarrow> number" where
  "compound_n mode inp =
     (if mode = COMPOUND then num_or (dflt (compoundingFrequency inp) (Fin 1)) (Fin 1)
      else Fin 1)"

definition compound_value :: "CalculatorMode \<Rightarrow> InvestmentInputs \<Rightarrow> number \<Rightarrow> number" where
  \<comment> \<open>\<open>initialInvestment * Math.pow(1 + (r / n), n * t)\<close>\<close>
  "compound_value mode inp t =
     (let n = compound_n mode inp
      in dflt (initialInvestment inp) (Fin 0) * Math_pow (Fin 1 + rate_r inp / n) (n * t))"

definition compound_step ::
  "real \<Rightarrow> CalculatorMode \<Rightarrow> InvestmentInputs \<Rightarrow> nat \<Rightarrow> YearData list \<Rightarrow> YearData list" where
  "compound_step now mode inp i rows =
     (let y = Fin (real i);
          total_invested = dflt (initialInvestment inp) (Fin 0);
          val = compound_value mode inp y
      in rows @ [\<lparr>year = y, label = start_year now inp + y,
                   invested = total_invested,
                   interest = Math_round (val - total_invested),
                   total_value = Math_round val,
                   realValue = Math_round (val / inflationFactor inp y)\<rparr>])"

definition compound_strategy ::
  "real \<Rightarrow> CalculatorMode \<Rightarrow> real \<Rightarrow> InvestmentInputs \<Rightarrow> Locals" where
  "compound_strategy now mode d inp =
     \<lparr>l_totalInvested = dflt (initialInvestment inp) (Fin 0),
      l_finalValue = compound_value mode inp (Fin d),
      l_yearlyData = for_loop d (compound_step now mode inp) [],
      l_monthlyPayment = Fin 0, l_roiPercentage = Fin 0\<rparr>"

subsection \<open>LOAN\<close>

definition R_loan :: "InvestmentInputs \<Rightarrow> number" where
  "R_loan inp = Fin (interestRate inp) / Fin 12 / Fin 100"

definition N_loan :: "real \<Rightarrow> number" where
  "N_loan d = Fin d * Fin 12"

definition loan_monthlyPayment :: "real \<Rightarrow> InvestmentInputs \<Rightarrow> number" where
  "loan_monthlyPayment d inp =
     (let P = dflt (initialInvestment inp) (Fin 0)
      in if strict_eq (R_loan inp) (Fin 0) then P / N_loan d
         else (P * R_loan inp * Math_pow (Fin 1 + R_loan inp) (N_loan d))
              / (Math_pow (Fin 1 + R_loan inp) (N_loan d) - Fin 1))"

definition loan_remaining :: "real \<Rightarrow> InvestmentInputs \<Rightarrow> nat \<Rightarrow> number" where
  "loan_remaining d inp i =
     (let P = dflt (initialInvestment inp) (Fin 0);
          monthsPassed = Fin (real i) * Fin 12
      in (P * (Math_pow (Fin 1 + R_loan inp) (N_loan d)
               - Math_pow (Fin 1 + R_loan inp) monthsPassed))
         / (Math_pow (Fin 1 + R_loan inp) (N_loan d) - Fin 1))"

definition loan_step ::
  "real \<Rightarrow> real \<Rightarrow> InvestmentInputs \<Rightarrow> nat \<Rightarrow> YearData list \<Rightarrow> YearData list" where
  "loan_step now d inp i rows =
     (let P = dflt (initialInvestment inp) (Fin 0);
          monthsPassed = Fin (real i) * Fin 12;
          remaining = loan_remaining d inp i;
          paidSoFar = loan_monthlyPayment d inp * monthsPassed;
          interestPaid = paidSoFar - (P - remaining)
      in rows @ [\<lparr>year = Fin (real i), label = start_year now inp + Fin (real i),
                   invested = Math_round (P - remaining),
                   interest = Math_round interestPaid,
                   total_value = Math_round remaining,
                   realValue = Fin 0\<rparr>])"

definition loan_strategy :: "real \<Rightarrow> real \<Rightarrow> InvestmentInputs \<Rightarrow> Locals" where
  "loan_strategy now d inp =
     \<lparr>l_totalInvested = dflt (initialInvestment inp) (Fin 0),
      l_finalValue = loan_monthlyPayment d inp * N_loan d,
      l_yearlyData = for_loop d (loan_step now d inp) [],
      l_monthlyPayment = loan_monthlyPayment d inp, l_roiPercentage = Fin 0\<rparr>"

subsection \<open>STOCK\<close>

definition stock_invested :: "InvestmentInputs \<Rightarrow> number" where
  "stock_invested inp = opt_or (quantity inp) (Fin 0) * opt_or (buyPrice inp) (Fin 0)"

definition capitalGains :: "InvestmentInputs \<Rightarrow> number" where
  "capitalGains inp =
     (opt_or (sellPrice inp) (Fin 0) - opt_or (buyPrice inp) (Fin 0)) * opt_or (quantity inp) (Fin 0)"

definition totalDividends :: "real \<Rightarrow> InvestmentInputs \<Rightarrow> number" where
  "totalDividends d inp =
     (opt_or (buyPrice inp) (Fin 0) * opt_or (quantity inp) (Fin 0))
     * (opt_or (dividendYield inp) (Fin 0) / Fin 100) * Fin d"

definition stock_step ::
  "real \<Rightarrow> real \<Rightarrow> InvestmentInputs \<Rightarrow> nat \<Rightarrow> YearData list \<Rightarrow> YearData list" where
  "stock_step now d inp i rows =
     (let y = Fin (real i);
          progress = y / Fin d;
          currentVal = stock_invested inp + (capitalGains inp * progress)
                       + ((totalDividends d inp / Fin d) * y)
      in rows @ [\<lparr>year = y, label = start_year now inp + y,
                   invested = stock_invested inp,
                   interest = Math_round (currentVal - stock_invested inp),
                   total_value = Math_round currentVal,
                   realValue = Math_round (currentVal / inflationFactor inp y)\<rparr>])"

definition stock_strategy :: "real \<Rightarrow> real \<Rightarrow> InvestmentInputs \<Rightarrow> Locals" where
  "stock_strategy now d inp =
     \<lparr>l_totalInvested = stock_invested inp,
      l_finalValue = stock_invested inp + capitalGains inp + totalDividends d inp,
      l_yearlyData = for_loop d (stock_step now d inp) [],
      l_monthlyPayment = Fin 0, l_roiPercentage = Fin 0\<rparr>"

subsection \<open>PROPERTY\<close>

definition property_step ::
  "real \<Rightarrow> InvestmentInputs \<Rightarrow> nat \<Rightarrow> number \<times> number \<times> YearData list
     \<Rightarrow> number \<times> number \<times> YearData list" where
  "property_step now inp i s =
     (case s of (currentPropValue, accumulatedNetRent, rows) \<Rightarrow>
        let pPrice = opt_or (propertyPrice inp) (Fin 0);
            rIncome = opt_or (rentalIncome inp) (Fin 0) * Fin 12;
            mExpenses = opt_or (monthlyExpenses inp) (Fin 0) * Fin 12;
            appRate = opt_or (appreciationRate inp) (Fin 0);
            y = Fin (real i);
            value2 = currentPropValue * (Fin 1 + appRate / Fin 100);
            yearlyNetRent = rIncome - mExpenses;
            rent2 = accumulatedNetRent + yearlyNetRent
        in (value2, rent2,
            rows @ [\<lparr>year = y, label = start_year now inp + y,
                      invested = pPrice,
                      interest = Math_round ((value2 - pPrice) + rent2),
                      total_value = Math_round (value2 + rent2),
                      realValue = Math_round ((value2 + rent2) / inflationFactor inp y)\<rparr>]))"

definition property_strategy :: "real \<Rightarrow> real \<Rightarrow> InvestmentInputs \<Rightarrow> Locals" where
  "property_strategy now d inp =
     (let pPrice = opt_or (propertyPrice inp) (Fin 0);
          s = for_loop d (property_step now inp) (pPrice, Fin 0, [])
      in case s of (currentPropValue, accumulatedNetRent, rows) \<Rightarrow>
           \<lparr>l_totalInvested = pPrice, l_finalValue = currentPropValue + accumulatedNetRent,
            l_yearlyData = rows, l_monthlyPayment = Fin 0, l_roiPercentage = Fin 0\<rparr>)"

subsection \<open>ROI\<close>

definition roi_finalValue :: "InvestmentInputs \<Rightarrow> number" where
  \<comment> \<open>\<open>sellPrice || initialInvestment\<close>\<close>
  "roi_finalValue inp = opt_or (sellPrice inp) (dflt (initialInvestment inp) (Fin 0))"

definition roi_profit :: "InvestmentInputs \<Rightarrow> number" where
  "roi_profit inp = roi_finalValue inp - dflt (initialInvestment inp) (Fin 0)"

definition roi_step ::
  "real \<Rightarrow> real \<Rightarrow> InvestmentInputs \<Rightarrow> nat \<Rightarrow> YearData list \<Rightarrow> YearData list" where
  "roi_step now d inp i rows =
     (let y = Fin (real i);
          total_invested = dflt (initialInvestment inp) (Fin 0);
          progress = y / Fin d;
          currentVal = total_invested + (roi_profit inp * progress)
      in rows @ [\<lparr>year = y, label = start_year now inp + y,
                   invested = total_invested,
                   interest = Math_round (currentVal - total_invested),
                   total_value = Math_round currentVal,
                   realValue = Math_round (currentVal / inflationFactor inp y)\<rparr>])"

definition roi_strategy :: "real \<Rightarrow> real \<Rightarrow> InvestmentInputs \<Rightarrow> Locals" where
  "roi_strategy now d inp =
     (let total_invested = dflt (initialInvestment inp) (Fin 0)
      in \<lparr>l_totalInvested = total_invested,
          l_finalValue = roi_finalValue inp,
          l_yearlyData = for_loop d (roi_step now d inp) [],
          l_monthlyPayment = Fin 0,
          l_roiPercentage =
            (if Fin 0 < total_invested then (roi_profit inp / total_invested) * Fin 100
             else Fin 0)\<rparr>)"

subsection \<open>TAX\<close>

definition taxableIncome :: "InvestmentInputs \<Rightarrow> number" where
  "taxableIncome inp =
     Math_max (Fin 0) (opt_or (annualIncome inp) (Fin 0) - opt_or (deductions inp) (Fin 0))"

definition calculatedTax :: "InvestmentInputs \<Rightarrow> number" where
  "calculatedTax inp = taxableIncome inp * (dflt (taxRate inp) (Fin 0) / Fin 100)"

definition tax_strategy :: "real \<Rightarrow> InvestmentInputs \<Rightarrow> Locals" where
  "tax_strategy now inp =
     (let total_invested = opt_or (annualIncome inp) (Fin 0);
          final_value = total_invested - calculatedTax inp
      in \<lparr>l_totalInvested = total_invested,
          l_finalValue = final_value,
          l_yearlyData = [\<lparr>year = Fin 1, label = start_year now inp,
                           invested = total_invested, interest = calculatedTax inp,
                           total_value = final_value, realValue = final_value\<rparr>],
          l_monthlyPayment = Fin 0, l_roiPercentage = Fin 0\<rparr>)"

section \<open>The engine\<close>

definition strategy :: "real \<Rightarrow> CalculatorMode \<Rightarrow> InvestmentInputs \<Rightarrow> Locals" where
  "strategy now mode inp =
     (let d = duration mode inp
      in case mode of
           SIP \<Rightarrow> sip_strategy now d inp
         | RETIREMENT \<Rightarrow> sip_strategy now d inp
         | GOAL \<Rightarrow> goal_strategy now d inp
         | LUMPSUM \<Rightarrow> compound_strategy now mode d inp
         | COMPOUND \<Rightarrow> compound_strategy now mode d inp
         | LOAN \<Rightarrow> loan_strategy now d inp
         | STOCK \<Rightarrow> stock_strategy now d inp
         | PROPERTY \<Rightarrow> property_strategy now d inp
         | ROI \<Rightarrow> roi_strategy now d inp
         | TAX \<Rightarrow> tax_strategy now inp)"

text \<open>The common post-calculation logic.\<close>

definition tax_payable :: "CalculatorMode \<Rightarrow> InvestmentInputs \<Rightarrow> Locals \<Rightarrow> number" where
  "tax_payable mode inp l =
     (if mode \<noteq> LOAN \<and> mode \<noteq> TAX then
        (let totalGain = l_finalValue l - l_totalInvested l
         in if Fin 0 < totalGain then totalGain * (dflt (taxRate inp) (Fin 0) / Fin 100)
            else Fin 0)
      else if mode = TAX then l_totalInvested l - l_finalValue l
      else Fin 0)"

definition post_cagr :: "real \<Rightarrow> Locals \<Rightarrow> number" where
  "post_cagr d l =
     (if Fin 0 < l_totalInvested l \<and> Fin 0 < l_finalValue l \<and> 0 < d
      then (Math_pow (l_finalValue l / l_totalInvested l) (Fin 1 / Fin d) - Fin 1) * Fin 100
      else Fin 0)"

definition post_doublingTime :: "InvestmentInputs \<Rightarrow> number" where
  "post_doublingTime inp =
     (if Fin 0 < effectiveRate inp then Fin 72 / effectiveRate inp else Fin 0)"

definition last_realValue :: "YearData list \<Rightarrow> number" where
  \<comment> \<open>\<open>yearlyData[yearlyData.length-1]?.realValue || 0\<close>\<close>
  "last_realValue rows = (case rows of [] \<Rightarrow> Fin 0 | _ # _ \<Rightarrow> num_or (realValue (last rows)) (Fin 0))"

definition calculateInvestment ::
  "real \<Rightarrow> CalculatorMode \<Rightarrow> InvestmentInputs \<Rightarrow> CalculationResult" where
  "calculateInvestment now mode inp =
     (let d = duration mode inp;
          l = strategy now mode inp;
          tax = tax_payable mode inp l;
          post_tax = l_finalValue l - (if mode = TAX then Fin 0 else tax);
          c = post_cagr d l;
          dt = post_doublingTime inp
      in \<lparr>totalInvested = Math_round (l_totalInvested l),
          finalValue = Math_round (l_finalValue l),
          totalInterest = Math_round (l_finalValue l - l_totalInvested l),
          taxPayable = Math_round tax,
          postTaxValue = Math_round post_tax,
          yearlyData = l_yearlyData l,
          monthlyPayment = Math_round (l_monthlyPayment l),
          roiPercentage = l_roiPercentage l,
          cagr = (if isFinite c then c else Fin 0),
          durationYears = Fin d,
          doublingTime = (if isFinite dt then dt else Fin 0),
          purchasingPowerLoss = l_finalValue l - last_realValue (l_yearlyData l)\<rparr>)"

section \<open>Auxiliary notions for the statements\<close>

text \<open>
  Two inputs on which a mode reads the same values: every field is compared after the
  default that the engine applies to it, and only where the mode reads it (\<open>stepUpRate\<close>
  is read by SIP and RETIREMENT only; \<open>sellPrice\<close> is read as \<open>sellPrice || 0\<close> by STOCK
  and as \<open>sellPrice || initialInvestment\<close> by ROI).
\<close>

definition same_reads ::
  "real \<Rightarrow> CalculatorMode \<Rightarrow> InvestmentInputs \<Rightarrow> InvestmentInputs \<Rightarrow> bool" where
  "same_reads now mode a b =
     (timePeriodYears a = timePeriodYears b
      \<and> interestRate a = interestRate b
      \<and> num_or (dflt (expenseRatio a) (Fin 0)) (Fin 0)
          = num_or (dflt (expenseRatio b) (Fin 0)) (Fin 0)
      \<and> dflt (initialInvestment a) (Fin 0) = dflt (initialInvestment b) (Fin 0)
      \<and> dflt (monthlyContribution a) (Fin 0) = dflt (monthlyContribution b) (Fin 0)
      \<and> (if mode = SIP \<or> mode = RETIREMENT
          then dflt (stepUpRate a) (Fin 0) = dflt (stepUpRate b) (Fin 0) else True)
      \<and> compound_n mode a = compound_n mode b
      \<and> dflt (inflationRate a) (Fin 0) = dflt (inflationRate b) (Fin 0)
      \<and> dflt (taxRate a) (Fin 0) = dflt (taxRate b) (Fin 0)
      \<and> start_year now a = start_year now b
      \<and> opt_or (buyPrice a) (Fin 0) = opt_or (buyPrice b) (Fin 0)
      \<and> (if mode = ROI then roi_finalValue a = roi_finalValue b
          else opt_or (sellPrice a) (Fin 0) = opt_or (sellPrice b) (Fin 0))
      \<and> opt_or (quantity a) (Fin 0) = opt_or (quantity b) (Fin 0)
      \<and> opt_or (dividendYield a) (Fin 0) = opt_or (dividendYield b) (Fin 0)
      \<and> opt_or (propertyPrice a) (Fin 0) = opt_or (propertyPrice b) (Fin 0)
      \<and> opt_or (rentalIncome a) (Fin 0) = opt_or (rentalIncome b) (Fin 0)
      \<and> opt_or (monthlyExpenses a) (Fin 0) = opt_or (monthlyExpenses b) (Fin 0)
      \<and> opt_or (appreciationRate a) (Fin 0) = opt_or (appreciationRate b) (Fin 0)
      \<and> opt_or (annualIncome a) (Fin 0) = opt_or (annualIncome b) (Fin 0)
      \<and> opt_or (deductions a) (Fin 0) = opt_or (deductions b) (Fin 0)
      \<and> goal_target a = goal_target b
      \<and> duration mode a = duration mode b)"

text \<open>The value of an optional field with the default \<open>0\<close>, and rounding on the reals.\<close>

definition or0 :: "real option \<Rightarrow> real" where
  "or0 x = (case x of None \<Rightarrow> 0 | Some v \<Rightarrow> v)"


subsection \<open>Concrete inputs\<close>

text \<open>One year at a rate of \<open>0\<close>, every optional field absent.\<close>

definition base_inputs :: InvestmentInputs where
  "base_inputs =
     \<lparr>initialInvestment = None, monthlyContribution = None, stepUpRate = None,
      timePeriodYears = 1, interestRate = 0, compoundingFrequency = None,
      inflationRate = None, taxRate = None, expenseRatio = None, startYear = None,
      buyPrice = None, sellPrice = None, quantity = None, dividendYield = None,
      propertyPrice = None, rentalIncome = None, monthlyExpenses = None,
      appreciationRate = None, annualIncome = None, deductions = None,
      targetAmount = None, currentAge = None, retirementAge = None\<rparr>"



text \<open>A year and a half of SIP; a retirement plan that starts at the age of \<open>0\<close>.\<close>

definition fractional_years_example :: InvestmentInputs where
  "fractional_years_example = base_inputs\<lparr>timePeriodYears := 3 / 2\<rparr>"

definition age_zero_example :: InvestmentInputs where
  "age_zero_example =
     base_inputs\<lparr>timePeriodYears := 10, currentAge := Some 0, retirementAge := Some 60\<rparr>"

subsection \<open>The effective rate\<close>

text \<open>The effective annual rate as a real.\<close>

definition eff :: "InvestmentInputs \<Rightarrow> real" where
  "eff inp = max 0 (interestRate inp - or0 (expenseRatio inp))"

text \<open>A lump sum of 10 for one year at 25 percent.\<close>

definition lumpsum_example :: InvestmentInputs where
  "lumpsum_example = base_inputs\<lparr>initialInvestment := Some 10, interestRate := 25\<rparr>"

subsection \<open>Level contributions\<close>

text \<open>
  The value of one unit paid at the end of each of \<open>n\<close> periods, with growth factor \<open>x\<close>
  per period: \<open>1 + x + ... + x ^ (n - 1)\<close>.
\<close>

primrec annuity :: "real \<Rightarrow> nat \<Rightarrow> real" where
  "annuity x 0 = 0"
| "annuity x (Suc n) = annuity x n * x + 1"




text \<open>A purchase at 1000 with no sale price.\<close>

definition roi_no_sale_example :: InvestmentInputs where
  "roi_no_sale_example = base_inputs\<lparr>initialInvestment := Some 1000\<rparr>"

text \<open>Loans of 12000 over one year and of 24000 over two years, at a rate of \<open>0\<close>.\<close>

definition zero_rate_loan :: InvestmentInputs where
  "zero_rate_loan = base_inputs\<lparr>initialInvestment := Some 12000\<rparr>"

definition zero_rate_loan_two_years :: InvestmentInputs where
  "zero_rate_loan_two_years =
     base_inputs\<lparr>initialInvestment := Some 24000, timePeriodYears := 2\<rparr>"

subsection \<open>Exact operations\<close>

text \<open>
  The real numbers that the binary64 format represents: \<open>m * 2 ^ e\<close> with \<open>\<bar>m\<bar> < 2 ^ 53\<close>
  and \<open>-1074 \<le> e \<le> 971\<close>. An operation \<open>+\<close>, \<open>-\<close>, \<open>*\<close> or \<open>/\<close> of the engine whose exact
  result is such a number returns it unchanged, so on these results the exact arithmetic
  of the model and the arithmetic of the engine agree. Statements about computed amounts
  are made under this hypothesis, or for whole numbers below \<open>2 ^ 53\<close>.
\<close>

definition binary64 :: "real \<Rightarrow> bool" where
  "binary64 x = (\<exists>m e :: int. \<bar>m\<bar> < 2 ^ 53 \<and> - 1074 \<le> e \<and> e \<le> 971
                   \<and> x = of_int m * 2 powi e)"

text \<open>The results of \<open>Math.round\<close>: a whole number, an infinity or \<open>NaN\<close>.\<close>

definition whole_or_not_finite :: "number \<Rightarrow> bool" where
  "whole_or_not_finite a =
     (case a of Fin x \<Rightarrow> x \<in> \<int> | PInf \<Rightarrow> True | NInf \<Rightarrow> True | NaN \<Rightarrow> True)"

text \<open>
  An income of 1000 with deductions of 200, taxed at 25 percent; 1000 for one year at 100
  percent, with gains taxed at 25 percent; 1000 for one year at 100 percent with a
  compounding frequency of \<open>-1\<close>; a retirement plan from the age of 30 to the age of 60.
\<close>

definition exact_tax_example :: InvestmentInputs where
  "exact_tax_example =
     base_inputs\<lparr>annualIncome := Some 1000, deductions := Some 200, taxRate := Some 25\<rparr>"

definition taxed_lumpsum_example :: InvestmentInputs where
  "taxed_lumpsum_example =
     base_inputs\<lparr>initialInvestment := Some 1000, interestRate := 100, taxRate := Some 25\<rparr>"

definition negative_frequency_example :: InvestmentInputs where
  "negative_frequency_example =
     base_inputs\<lparr>initialInvestment := Some 1000, interestRate := 100,
       compoundingFrequency := Some (- 1)\<rparr>"

definition retirement_example :: InvestmentInputs where
  "retirement_example =
     base_inputs\<lparr>timePeriodYears := 10, currentAge := Some 30, retirementAge := Some 60\<rparr>"

section \<open>Arithmetic on finite numbers\<close>

lemma Fin_plus [simp]: "Fin a + Fin b = Fin (a + b)"
  by (simp add: plus_number_def num_add_def)

lemma Fin_minus [simp]: "Fin a - Fin b = Fin (a - b)"
  by (simp add: minus_number_def num_add_def num_neg_def)

lemma Fin_times [simp]: "Fin a * Fin b = Fin (a * b)"
  by (simp add: times_number_def num_mul_def)

lemma Fin_divide: "Fin a / Fin b = (if b = 0 then signed_inf a else Fin (a / b))"
  by (simp add: divide_number_def num_div_def)

lemma Fin_divide_nonzero [simp]: "b \<noteq> 0 \<Longrightarrow> Fin a / Fin b = Fin (a / b)"
  by (simp add: Fin_divide)

lemma Fin_less [simp]: "Fin a < Fin b \<longleftrightarrow> a < b"
  by (simp add: less_number_def num_lt_def)

lemma Fin_less_eq [simp]: "Fin a \<le> Fin b \<longleftrightarrow> a \<le> b"
  by (auto simp add: less_eq_number_def num_lt_def strict_eq_def)

lemma Fin_strict_eq [simp]: "strict_eq (Fin a) (Fin b) \<longleftrightarrow> a = b"
  by (simp add: strict_eq_def)

lemma Fin_max [simp]: "Math_max (Fin a) (Fin b) = Fin (max a b)"
  by (simp add: Math_max_def num_lt_def max_def)

lemma Fin_round [simp]: "Math_round (Fin x) = Fin (of_int \<lfloor>x + 1 / 2\<rfloor>)"
  by (simp add: Math_round_def)

lemma Fin_isFinite [simp]: "isFinite (Fin x)"
  by (simp add: isFinite_def)

lemma Fin_num_or [simp]: "num_or (Fin a) (Fin b) = Fin (if a \<noteq> 0 then a else b)"
  by (simp add: num_or_def truthy_def)

lemma dflt_simps [simp]: "dflt None d = d" "dflt (Some v) d = Fin v"
  by (simp_all add: dflt_def)

lemma opt_or_simps [simp]:
  "opt_or None d = d" "opt_or (Some v) (Fin b) = Fin (if v \<noteq> 0 then v else b)"
  by (simp_all add: opt_or_def)

lemma Math_pow_nat [simp]: "Math_pow (Fin x) (Fin (real n)) = Fin (x ^ n)"
  by (simp add: Math_pow_def pow_fin_def)

lemma Math_pow_numeral [simp]: "Math_pow (Fin x) (Fin (numeral k)) = Fin (x ^ numeral k)"
  using Math_pow_nat [of x "numeral k"] by simp

lemma Math_pow_one [simp]: "Math_pow (Fin x) (Fin 1) = Fin x"
  using Math_pow_nat [of x 1] by simp

section \<open>The result depends on the input only through the values a mode reads\<close>

lemma same_reads_shared:
  assumes "same_reads now mode a b"
  shows "effectiveRate a = effectiveRate b" "rate_r a = rate_r b"
    "inflationFactor a = inflationFactor b" "post_doublingTime a = post_doublingTime b"
    "R_loan a = R_loan b"
  using assms
  by (simp_all add: same_reads_def effectiveRate_def rate_r_def inflationFactor_def
      post_doublingTime_def R_loan_def fun_eq_iff)

lemma same_reads_sip:
  assumes "same_reads now mode a b" "mode = SIP \<or> mode = RETIREMENT"
  shows "sip_strategy now d a = sip_strategy now d b"
proof -
  have "sip_step now a = sip_step now b"
    using assms same_reads_shared [OF assms(1)]
    by (simp add: sip_step_def fun_eq_iff same_reads_def Let_def cong: if_cong)
  then show ?thesis
    using assms by (simp add: sip_strategy_def same_reads_def Let_def cong: if_cong)
qed

lemma same_reads_goal:
  assumes "same_reads now mode a b"
  shows "goal_strategy now d a = goal_strategy now d b"
proof -
  have r: "goal_remainingTarget d a = goal_remainingTarget d b"
    using assms same_reads_shared [OF assms]
    by (simp add: goal_remainingTarget_def same_reads_def Let_def cong: if_cong)
  have p: "goal_monthlyPayment d a = goal_monthlyPayment d b"
    using r same_reads_shared [OF assms]
    by (simp add: goal_monthlyPayment_def Let_def cong: if_cong)
  have "goal_step now a = goal_step now b"
    using assms same_reads_shared [OF assms]
    by (simp add: goal_step_def fun_eq_iff same_reads_def Let_def cong: if_cong)
  then show ?thesis
    using assms p by (simp add: goal_strategy_def same_reads_def Let_def cong: if_cong)
qed

lemma same_reads_compound:
  assumes "same_reads now mode a b"
  shows "compound_strategy now mode d a = compound_strategy now mode d b"
proof -
  have v: "compound_value mode a = compound_value mode b"
    using assms same_reads_shared [OF assms]
    by (simp add: compound_value_def fun_eq_iff same_reads_def Let_def cong: if_cong)
  have "compound_step now mode a = compound_step now mode b"
    using assms v same_reads_shared [OF assms]
    by (simp add: compound_step_def fun_eq_iff same_reads_def Let_def cong: if_cong)
  then show ?thesis
    using assms v by (simp add: compound_strategy_def same_reads_def Let_def cong: if_cong)
qed

lemma same_reads_loan:
  assumes "same_reads now mode a b"
  shows "loan_strategy now d a = loan_strategy now d b"
proof -
  have p: "loan_monthlyPayment d a = loan_monthlyPayment d b"
    using assms same_reads_shared [OF assms]
    by (simp add: loan_monthlyPayment_def same_reads_def Let_def cong: if_cong)
  have r: "loan_remaining d a = loan_remaining d b"
    using assms same_reads_shared [OF assms]
    by (simp add: loan_remaining_def fun_eq_iff same_reads_def Let_def cong: if_cong)
  have "loan_step now d a = loan_step now d b"
    using assms p r by (simp add: loan_step_def fun_eq_iff same_reads_def Let_def cong: if_cong)
  then show ?thesis
    using assms p by (simp add: loan_strategy_def same_reads_def Let_def cong: if_cong)
qed

lemma same_reads_stock:
  assumes "same_reads now mode a b" "mode \<noteq> ROI"
  shows "stock_strategy now d a = stock_strategy now d b"
proof -
  have i: "stock_invested a = stock_invested b" "capitalGains a = capitalGains b"
    "totalDividends d a = totalDividends d b"
    using assms by (simp_all add: stock_invested_def capitalGains_def totalDividends_def
        same_reads_def)
  have "stock_step now d a = stock_step now d b"
    using assms i same_reads_shared [OF assms(1)]
    by (simp add: stock_step_def fun_eq_iff same_reads_def Let_def cong: if_cong)
  then show ?thesis
    using i by (simp add: stock_strategy_def Let_def cong: if_cong)
qed

lemma same_reads_property:
  assumes "same_reads now mode a b"
  shows "property_strategy now d a = property_strategy now d b"
proof -
  have "property_step now a = property_step now b"
    using assms same_reads_shared [OF assms]
    by (simp add: property_step_def fun_eq_iff same_reads_def Let_def cong: if_cong)
  then show ?thesis
    using assms by (simp add: property_strategy_def same_reads_def Let_def cong: if_cong)
qed

lemma same_reads_roi:
  assumes "same_reads now mode a b" "mode = ROI"
  shows "roi_strategy now d a = roi_strategy now d b"
proof -
  have p: "roi_profit a = roi_profit b" "roi_finalValue a = roi_finalValue b"
    using assms by (simp_all add: roi_profit_def same_reads_def)
  have "roi_step now d a = roi_step now d b"
    using assms p same_reads_shared [OF assms(1)]
    by (simp add: roi_step_def fun_eq_iff same_reads_def Let_def cong: if_cong)
  then show ?thesis
    using assms p by (simp add: roi_strategy_def same_reads_def Let_def cong: if_cong)
qed

lemma same_reads_tax:
  assumes "same_reads now mode a b"
  shows "tax_strategy now a = tax_strategy now b"
proof -
  have "calculatedTax a = calculatedTax b"
    using assms
    by (simp add: calculatedTax_def taxableIncome_def same_reads_def Let_def cong: if_cong)
  then show ?thesis
    using assms by (simp add: tax_strategy_def same_reads_def Let_def cong: if_cong)
qed

lemma same_reads_strategy:
  assumes "same_reads now mode a b"
  shows "strategy now mode a = strategy now mode b"
proof -
  have d: "duration mode a = duration mode b"
    using assms by (simp add: same_reads_def Let_def cong: if_cong)
  show ?thesis
    using assms d same_reads_sip [OF assms] same_reads_goal [OF assms]
      same_reads_compound [OF assms] same_reads_loan [OF assms] same_reads_stock [OF assms]
      same_reads_property [OF assms] same_reads_roi [OF assms] same_reads_tax [OF assms]
    by (cases mode) (simp_all add: strategy_def)
qed

lemma same_reads_result:
  assumes "same_reads now mode a b"
  shows "calculateInvestment now mode a = calculateInvestment now mode b"
proof -
  have d: "duration mode a = duration mode b"
    using assms by (simp add: same_reads_def Let_def cong: if_cong)
  have t: "tax_payable mode a = tax_payable mode b"
    using assms by (simp add: tax_payable_def fun_eq_iff same_reads_def Let_def cong: if_cong)
  show ?thesis
    using d t same_reads_strategy [OF assms] same_reads_shared [OF assms]
    by (simp add: calculateInvestment_def Let_def cong: if_cong)
qed

section \<open>GOAL mode and the step-up rate\<close>

text \<open>
  Claim C9. GOAL-mode noninterference with \<open>stepUpRate\<close>: two GOAL-mode inputs that
  differ only in \<open>stepUpRate\<close> give identical results. The solved payment and the
  schedule use a level contribution and never read the step-up rate.
\<close>

theorem goal_ignores_stepUpRate:
  "calculateInvestment now GOAL (inp\<lparr>stepUpRate := s1\<rparr>)
   = calculateInvestment now GOAL (inp\<lparr>stepUpRate := s2\<rparr>)"
  by (rule same_reads_result)
     (simp add: same_reads_def compound_n_def start_year_def goal_target_def duration_def Let_def cong: if_cong)

section \<open>Defaults, rounding and the fields of the result\<close>

lemma opt_or_Fin: "opt_or x (Fin 0) = Fin (or0 x)"
  by (cases x) (simp_all add: or0_def)

lemma dflt_Fin: "dflt x (Fin 0) = Fin (or0 x)"
  by (cases x) (simp_all add: or0_def)

lemma for_loop_one [simp]: "for_loop 1 body s = body 1 s"
  by (simp add: for_loop_def trip_count_def)

lemma result_fields:
  "totalInvested (calculateInvestment now mode inp)
     = Math_round (l_totalInvested (strategy now mode inp))"
  "finalValue (calculateInvestment now mode inp)
     = Math_round (l_finalValue (strategy now mode inp))"
  "totalInterest (calculateInvestment now mode inp)
     = Math_round (l_finalValue (strategy now mode inp) - l_totalInvested (strategy now mode inp))"
  "taxPayable (calculateInvestment now mode inp)
     = Math_round (tax_payable mode inp (strategy now mode inp))"
  "postTaxValue (calculateInvestment now mode inp)
     = Math_round (l_finalValue (strategy now mode inp)
         - (if mode = TAX then Fin 0 else tax_payable mode inp (strategy now mode inp)))"
  "monthlyPayment (calculateInvestment now mode inp)
     = Math_round (l_monthlyPayment (strategy now mode inp))"
  "yearlyData (calculateInvestment now mode inp) = l_yearlyData (strategy now mode inp)"
  "purchasingPowerLoss (calculateInvestment now mode inp)
     = l_finalValue (strategy now mode inp)
       - last_realValue (l_yearlyData (strategy now mode inp))"
  by (simp_all add: calculateInvestment_def Let_def)

section \<open>TAX mode\<close>

lemma binary64_of_int: "\<bar>k\<bar> < 2 ^ 53 \<Longrightarrow> binary64 (of_int k)"
  unfolding binary64_def by (rule exI [of _ k], rule exI [of _ 0]) simp




section \<open>Total interest and the rounded fields\<close>





section \<open>Length of the schedule\<close>

lemma fold_upt_Suc: "fold body [1 ..< Suc (Suc n)] s = body (Suc n) (fold body [1 ..< Suc n] s)"
  by simp

lemma fold_push_length:
  assumes "\<And>i rows. length (step i rows) = Suc (length rows)"
  shows "length (fold step xs rows) = length rows + length xs"
  by (induction xs arbitrary: rows) (simp_all add: assms)

lemma for_loop_push_length:
  assumes "\<And>i rows. length (step i rows) = Suc (length rows)"
  shows "length (for_loop m step []) = trip_count m"
  by (simp add: for_loop_def fold_push_length [of step, OF assms])

lemma fold_monthly_length:
  assumes "\<And>i s. length (proj (step i s))
             = length (proj s) + (if i mod 12 = 0 then 1 else 0)"
  shows "length (proj (fold step [1 ..< Suc n] s)) = length (proj s) + n div 12"
proof (induction n)
  case 0
  then show ?case by simp
next
  case (Suc n)
  have "length (proj (fold step [1 ..< Suc (Suc n)] s))
        = length (proj (fold step [1 ..< Suc n] s)) + (if Suc n mod 12 = 0 then 1 else 0)"
    by (simp only: fold_upt_Suc assms)
  then show ?case
    using Suc.IH by (simp add: div_Suc)
qed

lemma trip_count_months: "trip_count (d * 12) div 12 = nat \<lfloor>d\<rfloor>"
proof (cases "0 \<le> d")
  case True
  have "\<lfloor>d * 12 / real_of_int 12\<rfloor> = \<lfloor>d * 12\<rfloor> div 12"
    by (rule floor_divide_real_eq_div) simp
  then have "\<lfloor>d\<rfloor> = \<lfloor>d * 12\<rfloor> div 12"
    by simp
  moreover have "0 \<le> \<lfloor>d * 12\<rfloor>"
    using True by simp
  ultimately show ?thesis
    by (simp add: trip_count_def nat_div_distrib)
next
  case False
  then have "\<lfloor>d * 12\<rfloor> < 0" "\<lfloor>d\<rfloor> < 0"
    by (simp_all add: floor_less_iff)
  then show ?thesis
    by (simp add: trip_count_def)
qed

lemma sip_rows_length:
  "length (l_yearlyData (sip_strategy now d inp)) = nat \<lfloor>d\<rfloor>"
proof -
  let ?proj = "\<lambda>s :: number \<times> number \<times> number \<times> YearData list. snd (snd (snd s))"
  have step: "\<And>i s. length (?proj (sip_step now inp i s))
                = length (?proj s) + (if i mod 12 = 0 then 1 else 0)"
    by (simp add: sip_step_def Let_def split: prod.split)
  have "length (l_yearlyData (sip_strategy now d inp))
        = length (?proj (for_loop (d * 12) (sip_step now inp)
            (dflt (initialInvestment inp) (Fin 0), dflt (initialInvestment inp) (Fin 0),
             dflt (monthlyContribution inp) (Fin 0), [])))"
    by (simp add: sip_strategy_def Let_def split: prod.split)
  also have "\<dots> = trip_count (d * 12) div 12"
    unfolding for_loop_def
    by (simp only: fold_monthly_length
          [where proj = ?proj and step = "sip_step now inp", OF step]) simp
  finally show ?thesis
    by (simp add: trip_count_months)
qed

lemma goal_rows_length:
  "length (l_yearlyData (goal_strategy now d inp)) = nat \<lfloor>d\<rfloor>"
proof -
  let ?proj = "\<lambda>s :: number \<times> number \<times> YearData list. snd (snd s)"
  have step: "\<And>i s. length (?proj (goal_step now inp (goal_monthlyPayment d inp) i s))
                = length (?proj s) + (if i mod 12 = 0 then 1 else 0)"
    by (simp add: goal_step_def Let_def split: prod.split)
  have "length (l_yearlyData (goal_strategy now d inp))
        = length (?proj (for_loop (d * 12) (goal_step now inp (goal_monthlyPayment d inp))
            (dflt (initialInvestment inp) (Fin 0), dflt (initialInvestment inp) (Fin 0), [])))"
    by (simp add: goal_strategy_def Let_def split: prod.split)
  also have "\<dots> = trip_count (d * 12) div 12"
    unfolding for_loop_def
    by (simp only: fold_monthly_length
          [where proj = ?proj and step = "goal_step now inp (goal_monthlyPayment d inp)",
           OF step]) simp
  finally show ?thesis
    by (simp add: trip_count_months)
qed

lemma fold_state_push_length:
  assumes "\<And>i s. length (proj (step i s)) = Suc (length (proj s))"
  shows "length (proj (fold step xs s)) = length (proj s) + length xs"
  by (induction xs arbitrary: s) (simp_all add: assms)

lemma property_rows_length:
  "length (l_yearlyData (property_strategy now d inp)) = nat \<lfloor>d\<rfloor>"
proof -
  let ?proj = "\<lambda>s :: number \<times> number \<times> YearData list. snd (snd s)"
  have step: "\<And>i s. length (?proj (property_step now inp i s)) = Suc (length (?proj s))"
    by (simp add: property_step_def Let_def split: prod.split)
  have "length (l_yearlyData (property_strategy now d inp))
        = length (?proj (for_loop d (property_step now inp)
            (opt_or (propertyPrice inp) (Fin 0), Fin 0, [])))"
    by (simp add: property_strategy_def Let_def split: prod.split)
  also have "\<dots> = trip_count d"
    unfolding for_loop_def
    by (simp only: fold_state_push_length
          [where proj = ?proj and step = "property_step now inp", OF step]) simp
  finally show ?thesis
    by (simp add: trip_count_def)
qed

lemma pushing_rows_length:
  "length (l_yearlyData (compound_strategy now mode d inp)) = nat \<lfloor>d\<rfloor>"
  "length (l_yearlyData (loan_strategy now d inp)) = nat \<lfloor>d\<rfloor>"
  "length (l_yearlyData (stock_strategy now d inp)) = nat \<lfloor>d\<rfloor>"
  "length (l_yearlyData (roi_strategy now d inp)) = nat \<lfloor>d\<rfloor>"
  by (simp_all add: compound_strategy_def loan_strategy_def stock_strategy_def
      roi_strategy_def for_loop_push_length compound_step_def loan_step_def stock_step_def
      roi_step_def Let_def trip_count_def)

lemma strategy_rows_length:
  "length (l_yearlyData (strategy now mode inp))
   = (if mode = TAX then 1 else nat \<lfloor>duration mode inp\<rfloor>)"
  by (cases mode)
     (simp_all add: strategy_def sip_rows_length goal_rows_length property_rows_length
       pushing_rows_length tax_strategy_def Let_def)

text \<open>
  Claim C5, as stated: the schedule has as many rows as the effective duration in years,
  which in RETIREMENT mode is \<open>max(1, retirementAge - currentAge)\<close> when both ages are
  supplied. A duration of a year and a half gives one row, and a supplied \<open>currentAge\<close> of
  \<open>0\<close> is treated as absent: with \<open>retirementAge = 60\<close> and \<open>timePeriodYears = 10\<close>
  the schedule has 10 rows, not 60.
\<close>

theorem yearlyData_length_counterexample:
  "Fin (real (length (yearlyData (calculateInvestment 2026 SIP fractional_years_example))))
     \<noteq> durationYears (calculateInvestment 2026 SIP fractional_years_example)
   \<and> currentAge age_zero_example = Some 0
   \<and> retirementAge age_zero_example = Some 60
   \<and> real (length (yearlyData (calculateInvestment 2026 RETIREMENT age_zero_example)))
     \<noteq> max 1 (60 - 0)"
  by (simp add: result_fields strategy_rows_length duration_def calculateInvestment_def Let_def
      fractional_years_example_def age_zero_example_def base_inputs_def)

text \<open>
  Claim C5, amended: for an effective duration \<open>d\<close> of at most \<open>2 ^ 49\<close> years the schedule
  has \<open>\<lfloor>d\<rfloor>\<close> rows (none when \<open>d < 1\<close>), where \<open>d\<close> is \<open>timePeriodYears\<close>, except in
  RETIREMENT mode when both ages are supplied and non-zero, where it is
  \<open>max(1, retirementAge - currentAge)\<close>, the difference of the ages being a binary64
  number; TAX mode has exactly one row.
\<close>

theorem yearlyData_length:
  assumes "mode = RETIREMENT
           \<longrightarrow> binary64 (or0 (retirementAge inp) - or0 (currentAge inp))"
    and "duration mode inp \<le> 2 ^ 49"
  shows "length (yearlyData (calculateInvestment now mode inp)) =
     (if mode = TAX then 1
      else if mode = RETIREMENT then
        (case currentAge inp of
           None \<Rightarrow> nat \<lfloor>timePeriodYears inp\<rfloor>
         | Some ca \<Rightarrow>
             (case retirementAge inp of
                None \<Rightarrow> nat \<lfloor>timePeriodYears inp\<rfloor>
              | Some ra \<Rightarrow> if ca \<noteq> 0 \<and> ra \<noteq> 0 then nat \<lfloor>max 1 (ra - ca)\<rfloor>
                           else nat \<lfloor>timePeriodYears inp\<rfloor>))
      else nat \<lfloor>timePeriodYears inp\<rfloor>)"
  by (simp add: calculateInvestment_def Let_def strategy_rows_length duration_def
      split: option.split)

theorem yearlyData_length_witness:
  "binary64 (or0 (retirementAge retirement_example) - or0 (currentAge retirement_example))
   \<and> duration RETIREMENT retirement_example \<le> 2 ^ 49
   \<and> length (yearlyData (calculateInvestment 2026 RETIREMENT retirement_example)) = 30"
proof -
  have b: "binary64 (or0 (retirementAge retirement_example)
                     - or0 (currentAge retirement_example))"
    using binary64_of_int [of 30] by (simp add: retirement_example_def base_inputs_def or0_def)
  then have b': "RETIREMENT = RETIREMENT
      \<longrightarrow> binary64 (or0 (retirementAge retirement_example)
                    - or0 (currentAge retirement_example))"
    by simp
  have d: "duration RETIREMENT retirement_example \<le> 2 ^ 49"
    by (simp add: duration_def retirement_example_def base_inputs_def)
  show ?thesis
    using yearlyData_length [OF b' d, of 2026] b d
    by (simp add: retirement_example_def base_inputs_def or0_def)
qed

section \<open>Finite values and the effective rate\<close>

lemma isFinite_iff: "isFinite v \<longleftrightarrow> (\<exists>x. v = Fin x)"
  by (cases v) (simp_all add: isFinite_def)

lemma isFinite_arith [simp]:
  assumes "isFinite a" "isFinite b"
  shows "isFinite (a + b)" "isFinite (a - b)" "isFinite (a * b)" "isFinite (Math_max a b)"
    "isFinite (num_or a b)"
  using assms by (auto simp add: isFinite_iff)

lemma isFinite_divide [simp]: "isFinite a \<Longrightarrow> b \<noteq> 0 \<Longrightarrow> isFinite (a / Fin b)"
  by (auto simp add: isFinite_iff)

lemma isFinite_round [simp]: "isFinite (Math_round a) = isFinite a"
  by (cases a) (simp_all add: Math_round_def isFinite_def)

lemma isFinite_dflt [simp]: "isFinite d \<Longrightarrow> isFinite (dflt x d)"
  by (cases x) simp_all

lemma isFinite_opt_or [simp]: "isFinite d \<Longrightarrow> isFinite (opt_or x d)"
  by (cases x) (simp_all add: opt_or_def)

lemma effectiveRate_Fin: "effectiveRate inp = Fin (eff inp)"
  by (cases "expenseRatio inp") (simp_all add: effectiveRate_def eff_def or0_def)

lemma rate_r_Fin: "rate_r inp = Fin (eff inp / 100)"
  by (simp add: rate_r_def effectiveRate_Fin)

lemma eff_nonneg: "0 \<le> eff inp"
  by (simp add: eff_def)

lemma pow_fin_gt_one:
  assumes "1 < x" "0 < y"
  shows "\<exists>z. pow_fin x y = Fin z \<and> 1 < z"
proof (cases "of_int \<lfloor>y\<rfloor> = y")
  case True
  then have "0 < \<lfloor>y\<rfloor>"
    using assms(2) by linarith
  then have "0 < nat \<lfloor>y\<rfloor>"
    by simp
  then have "1 < x ^ nat \<lfloor>y\<rfloor>"
    using assms(1) by (simp add: one_less_power)
  then show ?thesis
    using True assms by (simp add: pow_fin_def)
next
  case False
  have "1 < x powr y"
    using assms by simp
  then show ?thesis
    using False assms by (simp add: pow_fin_def)
qed

lemma Math_pow_gt_one:
  assumes "1 < x" "0 < y"
  shows "\<exists>z. Math_pow (Fin x) (Fin y) = Fin z \<and> 1 < z"
  using pow_fin_gt_one [OF assms] assms by (simp add: Math_pow_def)

lemma tax_payable_TAX:
  "tax_payable TAX inp (strategy now TAX inp)
   = Fin (max 0 (or0 (annualIncome inp) - or0 (deductions inp)) * (or0 (taxRate inp) / 100))"
  by (simp add: tax_payable_def strategy_def tax_strategy_def calculatedTax_def
      taxableIncome_def opt_or_Fin dflt_Fin Let_def)

lemma strategy_lumpsum_example:
  "strategy now LUMPSUM lumpsum_example =
     \<lparr>l_totalInvested = Fin 10, l_finalValue = Fin (25 / 2),
      l_yearlyData = [\<lparr>year = Fin 1, label = Fin (now + 1), invested = Fin 10,
                       interest = Fin 3, total_value = Fin 13, realValue = Fin 13\<rparr>],
      l_monthlyPayment = Fin 0, l_roiPercentage = Fin 0\<rparr>"
  by (simp add: strategy_def compound_strategy_def compound_step_def compound_value_def
      compound_n_def rate_r_def effectiveRate_def duration_def inflationFactor_def
      start_year_def lumpsum_example_def base_inputs_def Let_def)

section \<open>Non-negative tax\<close>

lemma strategy_negative_frequency:
  "l_totalInvested (strategy now COMPOUND negative_frequency_example) = Fin 1000
   \<and> l_finalValue (strategy now COMPOUND negative_frequency_example) = PInf"
  by (simp add: strategy_def compound_strategy_def compound_value_def
      compound_n_def rate_r_def effectiveRate_def duration_def
      negative_frequency_example_def base_inputs_def Let_def Math_pow_def pow_fin_def
      times_number_def num_mul_def signed_inf_def divide_number_def num_div_def
      plus_number_def num_add_def)

lemma strategy_taxed_lumpsum:
  "l_totalInvested (strategy now LUMPSUM taxed_lumpsum_example) = Fin 1000
   \<and> l_finalValue (strategy now LUMPSUM taxed_lumpsum_example) = Fin 2000"
  by (simp add: strategy_def compound_strategy_def compound_value_def
      compound_n_def rate_r_def effectiveRate_def duration_def
      taxed_lumpsum_example_def base_inputs_def Let_def)

lemma strategy_exact_tax:
  "l_totalInvested (strategy now TAX exact_tax_example) = Fin 1000
   \<and> l_finalValue (strategy now TAX exact_tax_example) = Fin 800"
  by (simp add: strategy_def tax_strategy_def taxableIncome_def calculatedTax_def
      exact_tax_example_def base_inputs_def Let_def)

lemma negative_frequency_taxRate:
  "dflt (taxRate negative_frequency_example) (Fin 0) = Fin 0"
  by (simp add: negative_frequency_example_def base_inputs_def)

lemma negative_frequency_tax:
  "taxPayable (calculateInvestment 2026 COMPOUND negative_frequency_example) = NaN
   \<and> finalValue (calculateInvestment 2026 COMPOUND negative_frequency_example) = PInf"
  by (simp add: result_fields strategy_negative_frequency tax_payable_def Let_def
      negative_frequency_taxRate Math_round_def
      less_number_def num_lt_def minus_number_def num_add_def num_neg_def
      times_number_def num_mul_def signed_inf_def divide_number_def num_div_def)

lemma gain_positive_iff: "Fin 0 < a - b \<longleftrightarrow> b < (a :: number)"
  by (cases a; cases b) (simp_all add: less_number_def num_lt_def minus_number_def num_add_def num_neg_def)

lemma taxed_gain_sign:
  assumes "0 \<le> t" "Fin 0 < g"
  shows "g * Fin t = NaN \<or> g * Fin t = PInf \<or> (\<exists>v. 0 \<le> v \<and> g * Fin t = Fin v)"
  using assms
  by (cases g) (simp_all add: less_number_def num_lt_def times_number_def num_mul_def
      signed_inf_def)

lemma tax_payable_sign:
  assumes "0 \<le> or0 (taxRate inp)" "mode \<noteq> TAX"
  shows "tax_payable mode inp l = NaN \<or> tax_payable mode inp l = PInf
         \<or> (\<exists>v. 0 \<le> v \<and> tax_payable mode inp l = Fin v)"
proof (cases "mode \<noteq> LOAN \<and> Fin 0 < l_finalValue l - l_totalInvested l")
  case True
  have "0 \<le> or0 (taxRate inp) / 100"
    using assms(1) by simp
  then show ?thesis
    using True assms(2) taxed_gain_sign [of "or0 (taxRate inp) / 100"]
    by (simp add: tax_payable_def Let_def dflt_Fin)
next
  case False
  then show ?thesis
    using assms(2) by (auto simp add: tax_payable_def Let_def)
qed

lemma Math_round_sign:
  assumes "a = NaN \<or> a = PInf \<or> (\<exists>v. 0 \<le> v \<and> a = Fin v)"
  shows "Math_round a = NaN \<or> Math_round a = PInf \<or> (\<exists>v. 0 \<le> v \<and> Math_round a = Fin v)"
  using assms by (auto simp add: Math_round_def)

lemma tax_payable_no_gain:
  assumes "mode \<noteq> LOAN" "mode \<noteq> TAX" "\<not> l_totalInvested l < l_finalValue l"
  shows "tax_payable mode inp l = Fin 0"
  using assms by (simp add: tax_payable_def Let_def gain_positive_iff)

text \<open>
  Claim C10, as stated: for every mode and every input with \<open>taxRate \<ge> 0\<close> the returned
  \<open>taxPayable\<close> is \<open>\<ge> 0\<close>. It fails in COMPOUND mode for 1000 at 100 percent with a
  compounding frequency of \<open>-1\<close> and no tax rate: the growth factor is \<open>Math.pow(0, -1) =
  Infinity\<close>, the gain is infinite and positive, and the tax is \<open>Infinity * 0 = NaN\<close>.
\<close>

theorem taxPayable_counterexample:
  "0 \<le> or0 (taxRate negative_frequency_example)
   \<and> taxPayable (calculateInvestment 2026 COMPOUND negative_frequency_example) = NaN
   \<and> \<not> Fin 0 \<le> taxPayable (calculateInvestment 2026 COMPOUND negative_frequency_example)"
  by (simp add: negative_frequency_tax less_eq_number_def num_lt_def strict_eq_def)
     (simp add: negative_frequency_example_def base_inputs_def or0_def)

text \<open>
  Claim C10, amended: for every mode and every input with \<open>taxRate \<ge> 0\<close> the returned
  \<open>taxPayable\<close> is never negative: it is a number \<open>\<ge> 0\<close>, \<open>Infinity\<close> or \<open>NaN\<close>. It is \<open>0\<close>
  for LOAN, \<open>0\<close> in the other modes than TAX unless the unrounded final value exceeds the
  unrounded invested total, and \<open>0\<close> in TAX mode when the deductions cover the income. A
  gain of 1000 taxed at 25 percent gives 250, and an income of 1000 with deductions of 200
  taxed at 25 percent gives 200.
\<close>

theorem taxPayable_not_negative:
  assumes "0 \<le> or0 (taxRate inp)"
  shows "(taxPayable (calculateInvestment now mode inp) = NaN
          \<or> taxPayable (calculateInvestment now mode inp) = PInf
          \<or> (\<exists>v. 0 \<le> v \<and> taxPayable (calculateInvestment now mode inp) = Fin v))
       \<and> (mode = LOAN \<longrightarrow> taxPayable (calculateInvestment now mode inp) = Fin 0)
       \<and> (mode \<noteq> LOAN \<and> mode \<noteq> TAX
            \<and> \<not> l_totalInvested (strategy now mode inp) < l_finalValue (strategy now mode inp)
          \<longrightarrow> taxPayable (calculateInvestment now mode inp) = Fin 0)
       \<and> (mode = TAX \<and> or0 (annualIncome inp) \<le> or0 (deductions inp)
          \<longrightarrow> taxPayable (calculateInvestment now mode inp) = Fin 0)
       \<and> taxPayable (calculateInvestment now LUMPSUM taxed_lumpsum_example) = Fin 250
       \<and> taxPayable (calculateInvestment now TAX exact_tax_example) = Fin 200"
proof -
  let ?t = "tax_payable mode inp (strategy now mode inp)"
  have sign: "?t = NaN \<or> ?t = PInf \<or> (\<exists>v. 0 \<le> v \<and> ?t = Fin v)"
  proof (cases "mode = TAX")
    case True
    have "0 \<le> max 0 (or0 (annualIncome inp) - or0 (deductions inp))
               * (or0 (taxRate inp) / 100)"
      using assms by simp
    then show ?thesis
      using True tax_payable_TAX [of inp now] by blast
  next
    case False
    then show ?thesis
      using tax_payable_sign [OF assms] by blast
  qed
  have a: "taxPayable (calculateInvestment now mode inp) = NaN
          \<or> taxPayable (calculateInvestment now mode inp) = PInf
          \<or> (\<exists>v. 0 \<le> v \<and> taxPayable (calculateInvestment now mode inp) = Fin v)"
    using Math_round_sign [OF sign] by (simp add: result_fields)
  have b: "mode = LOAN \<longrightarrow> taxPayable (calculateInvestment now mode inp) = Fin 0"
    by (simp add: result_fields tax_payable_def)
  have c: "mode \<noteq> LOAN \<and> mode \<noteq> TAX
            \<and> \<not> l_totalInvested (strategy now mode inp) < l_finalValue (strategy now mode inp)
          \<longrightarrow> taxPayable (calculateInvestment now mode inp) = Fin 0"
    by (simp add: result_fields tax_payable_no_gain)
  have d: "mode = TAX \<and> or0 (annualIncome inp) \<le> or0 (deductions inp)
          \<longrightarrow> taxPayable (calculateInvestment now mode inp) = Fin 0"
    by (simp add: result_fields tax_payable_TAX)
  have "dflt (taxRate taxed_lumpsum_example) (Fin 0) = Fin 25"
    by (simp add: taxed_lumpsum_example_def base_inputs_def)
  then have e: "taxPayable (calculateInvestment now LUMPSUM taxed_lumpsum_example) = Fin 250"
    by (simp add: result_fields tax_payable_def strategy_taxed_lumpsum Let_def)
  have f: "taxPayable (calculateInvestment now TAX exact_tax_example) = Fin 200"
    by (simp add: result_fields tax_payable_def strategy_exact_tax)
  show ?thesis
    using a b c d e f by blast
qed

theorem taxPayable_not_negative_witness:
  "0 \<le> or0 (taxRate taxed_lumpsum_example)
   \<and> (taxPayable (calculateInvestment 2026 LUMPSUM taxed_lumpsum_example) = NaN
      \<or> taxPayable (calculateInvestment 2026 LUMPSUM taxed_lumpsum_example) = PInf
      \<or> (\<exists>v. 0 \<le> v
            \<and> taxPayable (calculateInvestment 2026 LUMPSUM taxed_lumpsum_example) = Fin v))
   \<and> taxPayable (calculateInvestment 2026 LUMPSUM taxed_lumpsum_example) = Fin 250"
proof -
  have t: "0 \<le> or0 (taxRate taxed_lumpsum_example)"
    by (simp add: taxed_lumpsum_example_def base_inputs_def or0_def)
  show ?thesis
    using taxPayable_not_negative [OF t, of 2026 LUMPSUM] t by blast
qed

section \<open>Whole monetary fields\<close>

text \<open>
  Claim C8, as stated: every monetary field of the result, \<open>purchasingPowerLoss\<close>
  included, is a whole number. A lump sum of 10 at 25 percent for one year has the
  unrounded final value 12.5 and the rounded last real value 13, and the returned
  \<open>purchasingPowerLoss\<close> is \<open>-0.5\<close>, which \<open>Math.round\<close> would change.
\<close>

theorem purchasingPowerLoss_counterexample:
  "purchasingPowerLoss (calculateInvestment 2026 LUMPSUM lumpsum_example) = Fin (- 1 / 2)
   \<and> Math_round (purchasingPowerLoss (calculateInvestment 2026 LUMPSUM lumpsum_example))
     \<noteq> purchasingPowerLoss (calculateInvestment 2026 LUMPSUM lumpsum_example)"
  by (simp add: result_fields strategy_lumpsum_example last_realValue_def)

lemma Math_round_whole_or_not_finite: "whole_or_not_finite (Math_round v)"
  by (cases v) (simp_all add: whole_or_not_finite_def Math_round_def)

text \<open>
  Claim C8, amended: \<open>totalInvested\<close>, \<open>finalValue\<close>, \<open>totalInterest\<close>, \<open>taxPayable\<close>,
  \<open>postTaxValue\<close> and \<open>monthlyPayment\<close> are results of \<open>Math.round\<close>: each is a whole
  number, unless it is infinite or \<open>NaN\<close>; \<open>purchasingPowerLoss\<close> is not rounded. For a
  lump sum of 10 at 25 percent the six fields are 10, 13, 3, 0, 13 and 0; with a
  compounding frequency of \<open>-1\<close> the returned \<open>finalValue\<close> is \<open>Infinity\<close>.
\<close>

theorem monetary_fields_whole:
  "whole_or_not_finite (totalInvested (calculateInvestment now mode inp))
   \<and> whole_or_not_finite (finalValue (calculateInvestment now mode inp))
   \<and> whole_or_not_finite (totalInterest (calculateInvestment now mode inp))
   \<and> whole_or_not_finite (taxPayable (calculateInvestment now mode inp))
   \<and> whole_or_not_finite (postTaxValue (calculateInvestment now mode inp))
   \<and> whole_or_not_finite (monthlyPayment (calculateInvestment now mode inp))
   \<and> totalInvested (calculateInvestment now LUMPSUM lumpsum_example) = Fin 10
   \<and> finalValue (calculateInvestment now LUMPSUM lumpsum_example) = Fin 13
   \<and> totalInterest (calculateInvestment now LUMPSUM lumpsum_example) = Fin 3
   \<and> taxPayable (calculateInvestment now LUMPSUM lumpsum_example) = Fin 0
   \<and> postTaxValue (calculateInvestment now LUMPSUM lumpsum_example) = Fin 13
   \<and> monthlyPayment (calculateInvestment now LUMPSUM lumpsum_example) = Fin 0
   \<and> finalValue (calculateInvestment now COMPOUND negative_frequency_example) = PInf"
proof -
  have "dflt (taxRate lumpsum_example) (Fin 0) = Fin 0"
    by (simp add: lumpsum_example_def base_inputs_def)
  then have "tax_payable LUMPSUM lumpsum_example (strategy now LUMPSUM lumpsum_example) = Fin 0"
    by (simp add: tax_payable_def strategy_lumpsum_example Let_def)
  then have ex: "totalInvested (calculateInvestment now LUMPSUM lumpsum_example) = Fin 10"
    "finalValue (calculateInvestment now LUMPSUM lumpsum_example) = Fin 13"
    "totalInterest (calculateInvestment now LUMPSUM lumpsum_example) = Fin 3"
    "taxPayable (calculateInvestment now LUMPSUM lumpsum_example) = Fin 0"
    "postTaxValue (calculateInvestment now LUMPSUM lumpsum_example) = Fin 13"
    "monthlyPayment (calculateInvestment now LUMPSUM lumpsum_example) = Fin 0"
    by (simp_all add: result_fields strategy_lumpsum_example)
  have "finalValue (calculateInvestment now COMPOUND negative_frequency_example) = PInf"
    by (simp add: result_fields strategy_negative_frequency Math_round_def)
  then show ?thesis
    using ex by (simp add: result_fields Math_round_whole_or_not_finite)
qed

section \<open>The goal planner\<close>

lemma annuity_closed: "x \<noteq> 1 \<Longrightarrow> annuity x n = (x ^ n - 1) / (x - 1)"
  by (induction n) (simp_all add: field_simps)

lemma annuity_one: "annuity 1 n = real n"
  by (induction n) simp_all

lemma goal_step_Fin:
  "fst (goal_step now inp (Fin p) k (Fin b, Fin c, rows)) = Fin (b * (1 + eff inp / 1200) + p)"
  "fst (snd (goal_step now inp (Fin p) k (Fin b, Fin c, rows))) = Fin (c + p)"
  by (simp_all add: goal_step_def rate_r_Fin Let_def)

lemma goal_loop_closed:
  "fst (fold (goal_step now inp (Fin p)) [1 ..< Suc n] (Fin b, Fin c, rows))
     = Fin (b * (1 + eff inp / 1200) ^ n + p * annuity (1 + eff inp / 1200) n)
   \<and> fst (snd (fold (goal_step now inp (Fin p)) [1 ..< Suc n] (Fin b, Fin c, rows)))
     = Fin (c + real n * p)"
proof (induction n)
  case 0
  then show ?case by simp
next
  case (Suc n)
  obtain B C rs where s: "fold (goal_step now inp (Fin p)) [1 ..< Suc n] (Fin b, Fin c, rows)
      = (B, C, rs)"
    by (cases "fold (goal_step now inp (Fin p)) [1 ..< Suc n] (Fin b, Fin c, rows)")
  have B: "B = Fin (b * (1 + eff inp / 1200) ^ n + p * annuity (1 + eff inp / 1200) n)"
    and C: "C = Fin (c + real n * p)"
    using Suc.IH [unfolded s] by simp_all
  show ?case
    by (simp only: fold_upt_Suc s B C goal_step_Fin) (simp add: algebra_simps)
qed



lemma trip_count_real [simp]: "trip_count (real n) = n"
  by (simp add: trip_count_def)

lemma goal_payment_cases:
  assumes m: "d * 12 = real n" "0 < n" and t: "goal_target inp = Fin target"
  shows "goal_remainingTarget d inp
           = Fin (target - or0 (initialInvestment inp) * (1 + eff inp / 1200) ^ n)"
    and "goal_monthlyPayment d inp =
           Fin (let rem = target - or0 (initialInvestment inp) * (1 + eff inp / 1200) ^ n
                in if rem \<le> 0 then 0
                   else if eff inp = 0 then rem / real n
                   else rem * (eff inp / 1200) / ((1 + eff inp / 1200) ^ n - 1))"
proof -
  show r: "goal_remainingTarget d inp
           = Fin (target - or0 (initialInvestment inp) * (1 + eff inp / 1200) ^ n)"
    by (simp add: goal_remainingTarget_def Let_def rate_r_Fin dflt_Fin t m(1))
  have "eff inp \<noteq> 0 \<Longrightarrow> (1 + eff inp / 1200) ^ n \<noteq> 1"
  proof -
    assume "eff inp \<noteq> 0"
    then have "1 < 1 + eff inp / 1200"
      using eff_nonneg [of inp] by simp
    then have "1 < (1 + eff inp / 1200) ^ n"
      using m(2) by (simp add: one_less_power)
    then show ?thesis
      by simp
  qed
  then show "goal_monthlyPayment d inp =
           Fin (let rem = target - or0 (initialInvestment inp) * (1 + eff inp / 1200) ^ n
                in if rem \<le> 0 then 0
                   else if eff inp = 0 then rem / real n
                   else rem * (eff inp / 1200) / ((1 + eff inp / 1200) ^ n - 1))"
    using m(2) by (simp add: goal_monthlyPayment_def r Let_def rate_r_Fin m(1))
qed

lemma cancel_payment: "q \<noteq> 0 \<Longrightarrow> i \<noteq> 0 \<Longrightarrow> rem * i / q * (q / i) = (rem :: real)"
  by simp

lemma annuity_payment:
  assumes "0 < n" "0 \<le> e"
  shows "(if e = 0 then rem / real n else rem * (e / 1200) / ((1 + e / 1200) ^ n - 1))
         * annuity (1 + e / 1200) n = rem"
proof (cases "e = 0")
  case True
  then show ?thesis
    using assms(1) by (simp add: annuity_one)
next
  case False
  then have "1 < 1 + e / 1200"
    using assms(2) by simp
  then have "1 < (1 + e / 1200) ^ n"
    using assms(1) by (simp add: one_less_power)
  then have q: "(1 + e / 1200) ^ n - 1 \<noteq> 0"
    by simp
  have i: "e / 1200 \<noteq> 0"
    using False by simp
  have a: "annuity (1 + e / 1200) n = ((1 + e / 1200) ^ n - 1) / (e / 1200)"
    using False by (simp add: annuity_closed)
  have "rem * (e / 1200) / ((1 + e / 1200) ^ n - 1)
        * (((1 + e / 1200) ^ n - 1) / (e / 1200)) = rem"
    by (rule cancel_payment [OF q i])
  then show ?thesis
    using False by (simp only: a if_False)
qed

lemma goal_strategy_value:
  assumes "goal_monthlyPayment d inp = Fin p"
  shows "l_finalValue (goal_strategy now d inp)
         = Fin (or0 (initialInvestment inp) * (1 + eff inp / 1200) ^ trip_count (d * 12)
                + p * annuity (1 + eff inp / 1200) (trip_count (d * 12)))"
    and "l_monthlyPayment (goal_strategy now d inp) = Fin p"
proof -
  have "l_finalValue (goal_strategy now d inp)
        = fst (fold (goal_step now inp (Fin p)) [1 ..< Suc (trip_count (d * 12))]
                 (Fin (or0 (initialInvestment inp)), Fin (or0 (initialInvestment inp)), []))"
    by (simp add: goal_strategy_def assms Let_def case_prod_beta for_loop_def dflt_Fin)
  then show "l_finalValue (goal_strategy now d inp)
         = Fin (or0 (initialInvestment inp) * (1 + eff inp / 1200) ^ trip_count (d * 12)
                + p * annuity (1 + eff inp / 1200) (trip_count (d * 12)))"
    using goal_loop_closed by simp
  show "l_monthlyPayment (goal_strategy now d inp) = Fin p"
    by (simp add: goal_strategy_def assms Let_def case_prod_beta)
qed

lemma goal_finalValue:
  assumes m: "d * 12 = real n" "0 < n" and t: "goal_target inp = Fin target"
    and pos: "0 < target - or0 (initialInvestment inp) * (1 + eff inp / 1200) ^ n"
  shows "l_finalValue (goal_strategy now d inp) = Fin target"
proof -
  let ?x = "1 + eff inp / 1200"
  let ?rem = "target - or0 (initialInvestment inp) * ?x ^ n"
  let ?pmt = "if eff inp = 0 then ?rem / real n
              else ?rem * (eff inp / 1200) / (?x ^ n - 1)"
  have p: "goal_monthlyPayment d inp = Fin ?pmt"
    using pos by (simp add: goal_payment_cases(2) [OF m t] Let_def)
  have "l_finalValue (goal_strategy now d inp)
        = Fin (or0 (initialInvestment inp) * ?x ^ n + ?pmt * annuity ?x n)"
    using goal_strategy_value(1) [OF p, of now] by (simp add: m(1))
  also have "?pmt * annuity ?x n = ?rem"
    by (rule annuity_payment [OF m(2) eff_nonneg])
  finally show ?thesis
    by simp
qed



lemma strategy_GOAL_SIP:
  "strategy now GOAL inp = goal_strategy now (timePeriodYears inp) inp"
  "strategy now SIP inp = sip_strategy now (timePeriodYears inp) inp"
  by (simp_all add: strategy_def duration_def)


lemma or0_simps [simp]: "or0 None = 0" "or0 (Some v) = v"
  by (simp_all add: or0_def)

lemma pow_fin_one: "pow_fin 1 y = Fin 1"
  by (simp add: pow_fin_def)








section \<open>Missing optional fields\<close>

lemmas reads_defs = same_reads_def compound_n_def start_year_def goal_target_def duration_def
  roi_finalValue_def

lemma missing_is_zero:
  "calculateInvestment now mode (inp\<lparr>initialInvestment := None\<rparr>)
   = calculateInvestment now mode (inp\<lparr>initialInvestment := Some 0\<rparr>)"
  "calculateInvestment now mode (inp\<lparr>monthlyContribution := None\<rparr>)
   = calculateInvestment now mode (inp\<lparr>monthlyContribution := Some 0\<rparr>)"
  "calculateInvestment now mode (inp\<lparr>stepUpRate := None\<rparr>)
   = calculateInvestment now mode (inp\<lparr>stepUpRate := Some 0\<rparr>)"
  "calculateInvestment now mode (inp\<lparr>inflationRate := None\<rparr>)
   = calculateInvestment now mode (inp\<lparr>inflationRate := Some 0\<rparr>)"
  "calculateInvestment now mode (inp\<lparr>taxRate := None\<rparr>)
   = calculateInvestment now mode (inp\<lparr>taxRate := Some 0\<rparr>)"
  "calculateInvestment now mode (inp\<lparr>expenseRatio := None\<rparr>)
   = calculateInvestment now mode (inp\<lparr>expenseRatio := Some 0\<rparr>)"
  "calculateInvestment now mode (inp\<lparr>buyPrice := None\<rparr>)
   = calculateInvestment now mode (inp\<lparr>buyPrice := Some 0\<rparr>)"
  "calculateInvestment now mode (inp\<lparr>sellPrice := None\<rparr>)
   = calculateInvestment now mode (inp\<lparr>sellPrice := Some 0\<rparr>)"
  "calculateInvestment now mode (inp\<lparr>quantity := None\<rparr>)
   = calculateInvestment now mode (inp\<lparr>quantity := Some 0\<rparr>)"
  "calculateInvestment now mode (inp\<lparr>dividendYield := None\<rparr>)
   = calculateInvestment now mode (inp\<lparr>dividendYield := Some 0\<rparr>)"
  "calculateInvestment now mode (inp\<lparr>propertyPrice := None\<rparr>)
   = calculateInvestment now mode (inp\<lparr>propertyPrice := Some 0\<rparr>)"
  "calculateInvestment now mode (inp\<lparr>rentalIncome := None\<rparr>)
   = calculateInvestment now mode (inp\<lparr>rentalIncome := Some 0\<rparr>)"
  "calculateInvestment now mode (inp\<lparr>monthlyExpenses := None\<rparr>)
   = calculateInvestment now mode (inp\<lparr>monthlyExpenses := Some 0\<rparr>)"
  "calculateInvestment now mode (inp\<lparr>appreciationRate := None\<rparr>)
   = calculateInvestment now mode (inp\<lparr>appreciationRate := Some 0\<rparr>)"
  "calculateInvestment now mode (inp\<lparr>annualIncome := None\<rparr>)
   = calculateInvestment now mode (inp\<lparr>annualIncome := Some 0\<rparr>)"
  "calculateInvestment now mode (inp\<lparr>deductions := None\<rparr>)
   = calculateInvestment now mode (inp\<lparr>deductions := Some 0\<rparr>)"
  "calculateInvestment now mode (inp\<lparr>currentAge := None\<rparr>)
   = calculateInvestment now mode (inp\<lparr>currentAge := Some 0\<rparr>)"
  "calculateInvestment now mode (inp\<lparr>retirementAge := None\<rparr>)
   = calculateInvestment now mode (inp\<lparr>retirementAge := Some 0\<rparr>)"
  by (rule same_reads_result, simp add: reads_defs dflt_Fin split: option.split)+

lemma missing_is_replaced:
  "calculateInvestment now mode (inp\<lparr>targetAmount := None\<rparr>)
   = calculateInvestment now mode (inp\<lparr>targetAmount := Some 1000000\<rparr>)"
  "calculateInvestment now ROI (inp\<lparr>sellPrice := None\<rparr>)
   = calculateInvestment now ROI (inp\<lparr>sellPrice := Some (or0 (initialInvestment inp))\<rparr>)"
  "calculateInvestment now mode (inp\<lparr>compoundingFrequency := None\<rparr>)
   = calculateInvestment now mode (inp\<lparr>compoundingFrequency := Some 1\<rparr>)"
  "calculateInvestment now mode (inp\<lparr>startYear := None\<rparr>)
   = calculateInvestment now mode (inp\<lparr>startYear := Some now\<rparr>)"
  by (rule same_reads_result, simp add: reads_defs dflt_Fin split: option.split)+

lemma substituted_defaults:
  "goal_target (inp\<lparr>targetAmount := None\<rparr>) = Fin 1000000"
  "roi_finalValue (inp\<lparr>sellPrice := None\<rparr>) = dflt (initialInvestment inp) (Fin 0)"
  "compound_n COMPOUND (inp\<lparr>compoundingFrequency := None\<rparr>) = Fin 1"
  "start_year now (inp\<lparr>startYear := None\<rparr>) = Fin now"
  by (simp_all add: goal_target_def roi_finalValue_def compound_n_def start_year_def)

lemma base_inputs_goal:
  "goal_target base_inputs = Fin 1000000"
  "l_monthlyPayment (strategy now GOAL base_inputs) = Fin (250000 / 3)"
  "l_finalValue (strategy now GOAL base_inputs) = Fin 1000000"
proof -
  have f: "timePeriodYears base_inputs * 12 = real 12" "eff base_inputs = 0"
    "or0 (initialInvestment base_inputs) = 0"
    by (simp_all add: base_inputs_def eff_def)
  show t: "goal_target base_inputs = Fin 1000000"
    by (simp add: goal_target_def base_inputs_def)
  have n: "0 < (12 :: nat)"
    by simp
  have p: "goal_monthlyPayment (timePeriodYears base_inputs) base_inputs = Fin (250000 / 3)"
    by (simp add: goal_payment_cases(2) [OF f(1) n t] f)
  show "l_monthlyPayment (strategy now GOAL base_inputs) = Fin (250000 / 3)"
    using goal_strategy_value(2) [OF p] by (simp add: strategy_GOAL_SIP)
  show "l_finalValue (strategy now GOAL base_inputs) = Fin 1000000"
    using goal_finalValue [OF f(1) n t] by (simp add: strategy_GOAL_SIP f)
qed

lemma strategy_roi_no_sale:
  "l_finalValue (strategy now ROI roi_no_sale_example) = Fin 1000"
  "roi_finalValue roi_no_sale_example = Fin 1000"
  by (simp_all add: strategy_def roi_strategy_def roi_finalValue_def roi_no_sale_example_def
      base_inputs_def Let_def)

text \<open>
  Claim C4, as stated: a missing optional numeric field is computed as if its value
  were \<open>0\<close>, and no other default is substituted. In GOAL mode a missing
  \<open>targetAmount\<close> is replaced by 1000000: with every optional field absent, one year
  and a rate of \<open>0\<close>, the required payment is 83333 and the schedule ends at 1000000. In
  ROI mode a missing \<open>sellPrice\<close> is replaced by \<open>initialInvestment\<close>.
\<close>

theorem missing_fields_counterexample:
  "targetAmount base_inputs = None
   \<and> goal_target base_inputs \<noteq> dflt (targetAmount base_inputs) (Fin 0)
   \<and> monthlyPayment (calculateInvestment 2026 GOAL base_inputs) = Fin 83333
   \<and> finalValue (calculateInvestment 2026 GOAL base_inputs) = Fin 1000000
   \<and> sellPrice roi_no_sale_example = None
   \<and> roi_finalValue roi_no_sale_example \<noteq> dflt (sellPrice roi_no_sale_example) (Fin 0)
   \<and> finalValue (calculateInvestment 2026 ROI roi_no_sale_example) = Fin 1000"
  by (simp add: result_fields base_inputs_goal strategy_roi_no_sale)
     (simp add: base_inputs_def roi_no_sale_example_def)

text \<open>
  Claim C4, amended: for \<open>initialInvestment\<close>, \<open>monthlyContribution\<close>, \<open>stepUpRate\<close>,
  \<open>inflationRate\<close>, \<open>taxRate\<close>, \<open>expenseRatio\<close>, \<open>buyPrice\<close>, \<open>sellPrice\<close>, \<open>quantity\<close>,
  \<open>dividendYield\<close>, \<open>propertyPrice\<close>, \<open>rentalIncome\<close>, \<open>monthlyExpenses\<close>,
  \<open>appreciationRate\<close>, \<open>annualIncome\<close>, \<open>deductions\<close>, \<open>currentAge\<close> and \<open>retirementAge\<close>, a
  missing field gives the same result as the value \<open>0\<close>. Other values are substituted
  for four fields: a missing \<open>targetAmount\<close> is read as 1000000, a missing \<open>sellPrice\<close>
  in ROI mode as \<open>initialInvestment\<close> (a \<open>sellPrice\<close> of \<open>0\<close> is replaced in the same
  way), a missing \<open>compoundingFrequency\<close> as \<open>1\<close>, and a missing \<open>startYear\<close> as the
  current calendar year.
\<close>

theorem missing_fields_defaults:
  "calculateInvestment now mode (inp\<lparr>initialInvestment := None\<rparr>)
     = calculateInvestment now mode (inp\<lparr>initialInvestment := Some 0\<rparr>)
   \<and> calculateInvestment now mode (inp\<lparr>monthlyContribution := None\<rparr>)
     = calculateInvestment now mode (inp\<lparr>monthlyContribution := Some 0\<rparr>)
   \<and> calculateInvestment now mode (inp\<lparr>stepUpRate := None\<rparr>)
     = calculateInvestment now mode (inp\<lparr>stepUpRate := Some 0\<rparr>)
   \<and> calculateInvestment now mode (inp\<lparr>inflationRate := None\<rparr>)
     = calculateInvestment now mode (inp\<lparr>inflationRate := Some 0\<rparr>)
   \<and> calculateInvestment now mode (inp\<lparr>taxRate := None\<rparr>)
     = calculateInvestment now mode (inp\<lparr>taxRate := Some 0\<rparr>)
   \<and> calculateInvestment now mode (inp\<lparr>expenseRatio := None\<rparr>)
     = calculateInvestment now mode (inp\<lparr>expenseRatio := Some 0\<rparr>)
   \<and> calculateInvestment now mode (inp\<lparr>buyPrice := None\<rparr>)
     = calculateInvestment now mode (inp\<lparr>buyPrice := Some 0\<rparr>)
   \<and> calculateInvestment now mode (inp\<lparr>sellPrice := None\<rparr>)
     = calculateInvestment now mode (inp\<lparr>sellPrice := Some 0\<rparr>)
   \<and> calculateInvestment now mode (inp\<lparr>quantity := None\<rparr>)
     = calculateInvestment now mode (inp\<lparr>quantity := Some 0\<rparr>)
   \<and> calculateInvestment now mode (inp\<lparr>dividendYield := None\<rparr>)
     = calculateInvestment now mode (inp\<lparr>dividendYield := Some 0\<rparr>)
   \<and> calculateInvestment now mode (inp\<lparr>propertyPrice := None\<rparr>)
     = calculateInvestment now mode (inp\<lparr>propertyPrice := Some 0\<rparr>)
   \<and> calculateInvestment now mode (inp\<lparr>rentalIncome := None\<rparr>)
     = calculateInvestment now mode (inp\<lparr>rentalIncome := Some 0\<rparr>)
   \<and> calculateInvestment now mode (inp\<lparr>monthlyExpenses := None\<rparr>)
     = calculateInvestment now mode (inp\<lparr>monthlyExpenses := Some 0\<rparr>)
   \<and> calculateInvestment now mode (inp\<lparr>appreciationRate := None\<rparr>)
     = calculateInvestment now mode (inp\<lparr>appreciationRate := Some 0\<rparr>)
   \<and> calculateInvestment now mode (inp\<lparr>annualIncome := None\<rparr>)
     = calculateInvestment now mode (inp\<lparr>annualIncome := Some 0\<rparr>)
   \<and> calculateInvestment now mode (inp\<lparr>deductions := None\<rparr>)
     = calculateInvestment now mode (inp\<lparr>deductions := Some 0\<rparr>)
   \<and> calculateInvestment now mode (inp\<lparr>currentAge := None\<rparr>)
     = calculateInvestment now mode (inp\<lparr>currentAge := Some 0\<rparr>)
   \<and> calculateInvestment now mode (inp\<lparr>retirementAge := None\<rparr>)
     = calculateInvestment now mode (inp\<lparr>retirementAge := Some 0\<rparr>)
   \<and> goal_target (inp\<lparr>targetAmount := None\<rparr>) = Fin 1000000
   \<and> calculateInvestment now mode (inp\<lparr>targetAmount := None\<rparr>)
     = calculateInvestment now mode (inp\<lparr>targetAmount := Some 1000000\<rparr>)
   \<and> roi_finalValue (inp\<lparr>sellPrice := None\<rparr>) = dflt (initialInvestment inp) (Fin 0)
   \<and> calculateInvestment now ROI (inp\<lparr>sellPrice := None\<rparr>)
     = calculateInvestment now ROI (inp\<lparr>sellPrice := Some (or0 (initialInvestment inp))\<rparr>)
   \<and> compound_n COMPOUND (inp\<lparr>compoundingFrequency := None\<rparr>) = Fin 1
   \<and> calculateInvestment now mode (inp\<lparr>compoundingFrequency := None\<rparr>)
     = calculateInvestment now mode (inp\<lparr>compoundingFrequency := Some 1\<rparr>)
   \<and> start_year now (inp\<lparr>startYear := None\<rparr>) = Fin now
   \<and> calculateInvestment now mode (inp\<lparr>startYear := None\<rparr>)
     = calculateInvestment now mode (inp\<lparr>startYear := Some now\<rparr>)"
  by (intro conjI missing_is_zero missing_is_replaced substituted_defaults)

section \<open>Loans at a rate of zero\<close>

lemma for_loop_two: "for_loop 2 body s = body 2 (body 1 s)"
proof -
  have "trip_count 2 = Suc (Suc 0)"
    by (simp add: trip_count_def)
  then show ?thesis
    by (simp add: for_loop_def numeral_2_eq_2)
qed

lemma NaN_arith [simp]:
  "NaN + a = NaN" "a + NaN = NaN" "NaN - a = NaN" "a - NaN = NaN"
  "NaN * a = NaN" "a * NaN = NaN" "Math_round NaN = NaN" "Fin 0 / Fin 0 = NaN"
  by (cases a; simp add: plus_number_def minus_number_def times_number_def num_add_def
      num_mul_def num_neg_def Math_round_def divide_number_def num_div_def signed_inf_def)+

lemma zero_rate_remaining:
  assumes "interestRate inp = 0" "0 < d"
  shows "loan_remaining d inp i = NaN"
proof -
  obtain P where P: "dflt (initialInvestment inp) (Fin 0) = Fin P"
    by (simp add: dflt_Fin)
  have "Math_pow (Fin 1) (Fin (d * 12)) = Fin 1" "Math_pow (Fin 1) (Fin (real i * 12)) = Fin 1"
    by (simp_all add: Math_pow_def pow_fin_one)
  then show ?thesis
    by (simp add: loan_remaining_def R_loan_def N_loan_def assms(1) P Let_def)
qed

lemma zero_rate_row:
  assumes "interestRate inp = 0" "0 < d"
  shows "loan_step now d inp i rows
         = rows @ [\<lparr>year = Fin (real i), label = start_year now inp + Fin (real i),
                     invested = NaN, interest = NaN, total_value = NaN, realValue = Fin 0\<rparr>]"
  by (simp add: loan_step_def zero_rate_remaining [OF assms] Let_def)

lemma zero_rate_payment:
  assumes "interestRate inp = 0" "0 < d"
  shows "loan_monthlyPayment d inp = Fin (or0 (initialInvestment inp) / (d * 12))"
  using assms by (simp add: loan_monthlyPayment_def R_loan_def N_loan_def dflt_Fin Let_def)

lemma strategy_LOAN: "strategy now LOAN inp = loan_strategy now (timePeriodYears inp) inp"
  by (simp add: strategy_def duration_def)

lemma cagr_doublingTime_finite:
  "isFinite (cagr (calculateInvestment now mode inp))"
  "isFinite (doublingTime (calculateInvestment now mode inp))"
  by (simp_all add: calculateInvestment_def Let_def)

lemma fold_push_last:
  assumes "\<And>i rows. step i rows = rows @ [row i]"
  shows "last (fold step [1 ..< Suc (Suc n)] rows) = row (Suc n)"
  by (simp only: fold_upt_Suc assms) simp

lemma loan_final_row_positive_rate:
  assumes "0 < interestRate inp" "timePeriodYears inp = real (Suc k)"
  shows "total_value (last (yearlyData (calculateInvestment now LOAN inp))) = Fin 0"
    and "interest (last (yearlyData (calculateInvestment now LOAN inp)))
         = Math_round (loan_monthlyPayment (timePeriodYears inp) inp
                       * N_loan (timePeriodYears inp)
                       - dflt (initialInvestment inp) (Fin 0))"
proof -
  let ?d = "timePeriodYears inp"
  let ?row = "\<lambda>i. \<lparr>year = Fin (real i), label = start_year now inp + Fin (real i),
      invested = Math_round (dflt (initialInvestment inp) (Fin 0) - loan_remaining ?d inp i),
      interest = Math_round (loan_monthlyPayment ?d inp * (Fin (real i) * Fin 12)
                   - (dflt (initialInvestment inp) (Fin 0) - loan_remaining ?d inp i)),
      total_value = Math_round (loan_remaining ?d inp i), realValue = Fin 0\<rparr>"
  have step: "\<And>i rows. loan_step now ?d inp i rows = rows @ [?row i]"
    by (simp add: loan_step_def Let_def)
  have tc: "trip_count ?d = Suc k"
    by (simp only: assms(2) trip_count_real)
  have y: "yearlyData (calculateInvestment now LOAN inp)
           = fold (loan_step now ?d inp) [1 ..< Suc (Suc k)] []"
    by (simp add: result_fields strategy_LOAN loan_strategy_def for_loop_def tc)
  have l: "last (yearlyData (calculateInvestment now LOAN inp)) = ?row (Suc k)"
    by (simp only: y fold_push_last
          [where step = "loan_step now ?d inp" and row = ?row, OF step])
  have "1 < 1 + interestRate inp / 1200"
    using assms(1) by simp
  then obtain z where z: "Math_pow (Fin (1 + interestRate inp / 1200)) (Fin (real (Suc k) * 12))
      = Fin z" "1 < z"
    using Math_pow_gt_one [of "1 + interestRate inp / 1200" "real (Suc k) * 12"] by auto
  have r: "loan_remaining ?d inp (Suc k) = Fin 0"
    using z by (simp add: loan_remaining_def R_loan_def N_loan_def assms(2) dflt_Fin Let_def)
  have d: "Fin (real (Suc k)) = Fin ?d"
    by (simp only: assms(2))
  show "total_value (last (yearlyData (calculateInvestment now LOAN inp))) = Fin 0"
    by (simp add: l r)
  show "interest (last (yearlyData (calculateInvestment now LOAN inp)))
         = Math_round (loan_monthlyPayment (timePeriodYears inp) inp
                       * N_loan (timePeriodYears inp)
                       - dflt (initialInvestment inp) (Fin 0))"
    by (simp only: l YearData.select_convs r d N_loan_def) (simp add: dflt_Fin)
qed

text \<open>
  Claim C2. The engine is total on the documented domain: zero-rate divisions are
  handled by explicit branches, so that no returned field holds a non-finite value, and
  \<open>cagr\<close> and \<open>doublingTime\<close> are coerced to \<open>0\<close> when not finite. The last part holds
  (\<open>cagr_doublingTime_finite\<close>), and the instalment of a zero-rate loan has its own
  branch, but the schedule of a zero-rate loan does not: every row divides \<open>0\<close> by \<open>0\<close>.
  For a loan of 12000 over one year at a rate of \<open>0\<close> the returned schedule is one row
  whose \<open>invested\<close>, \<open>interest\<close> and \<open>total\<close> are \<open>NaN\<close>.
\<close>

theorem zero_rate_loan_schedule:
  "yearlyData (calculateInvestment 2026 LOAN zero_rate_loan)
   = [\<lparr>year = Fin 1, label = Fin 2027, invested = NaN, interest = NaN,
        total_value = NaN, realValue = Fin 0\<rparr>]
   \<and> \<not> isFinite (total_value (last (yearlyData (calculateInvestment 2026 LOAN zero_rate_loan))))"
proof -
  have f: "interestRate zero_rate_loan = 0" "timePeriodYears zero_rate_loan = 1"
    "start_year 2026 zero_rate_loan = Fin 2026"
    by (simp_all add: zero_rate_loan_def base_inputs_def start_year_def)
  have "yearlyData (calculateInvestment 2026 LOAN zero_rate_loan)
        = [\<lparr>year = Fin 1, label = Fin 2027, invested = NaN, interest = NaN,
             total_value = NaN, realValue = Fin 0\<rparr>]"
    by (simp add: result_fields strategy_LOAN loan_strategy_def f zero_rate_row)
  then show ?thesis
    by (simp add: isFinite_def)
qed

text \<open>
  Claim C7. For a loan with a positive principal and a positive whole number of years,
  the outstanding balance of the final row is \<open>0\<close>, its cumulative interest is the
  instalment times the number of months minus the principal, and at a monthly rate of
  \<open>0\<close> the instalment is the principal divided by the number of months. In the exact
  arithmetic of the model the final row is as claimed at a positive rate
  (\<open>loan_final_row_positive_rate\<close>). At a rate of \<open>0\<close>
  the instalment is as claimed, 1000 for 24000 over two years, but the final row's
  balance and interest are \<open>NaN\<close>.
\<close>

theorem zero_rate_loan_final_row:
  "monthlyPayment (calculateInvestment 2026 LOAN zero_rate_loan_two_years) = Fin 1000
   \<and> last (yearlyData (calculateInvestment 2026 LOAN zero_rate_loan_two_years))
     = \<lparr>year = Fin 2, label = Fin 2028, invested = NaN, interest = NaN,
        total_value = NaN, realValue = Fin 0\<rparr>
   \<and> total_value (last (yearlyData (calculateInvestment 2026 LOAN zero_rate_loan_two_years)))
     \<noteq> Fin 0"
proof -
  have f: "interestRate zero_rate_loan_two_years = 0"
    "timePeriodYears zero_rate_loan_two_years = 2"
    "start_year 2026 zero_rate_loan_two_years = Fin 2026"
    "or0 (initialInvestment zero_rate_loan_two_years) = 24000"
    by (simp_all add: zero_rate_loan_two_years_def base_inputs_def start_year_def)
  have p: "monthlyPayment (calculateInvestment 2026 LOAN zero_rate_loan_two_years) = Fin 1000"
    by (simp add: result_fields strategy_LOAN loan_strategy_def f zero_rate_payment)
  have "last (yearlyData (calculateInvestment 2026 LOAN zero_rate_loan_two_years))
     = \<lparr>year = Fin 2, label = Fin 2028, invested = NaN, interest = NaN,
        total_value = NaN, realValue = Fin 0\<rparr>"
    by (simp add: result_fields strategy_LOAN loan_strategy_def f zero_rate_row for_loop_two)
  then show ?thesis
    using p by simp
qed

end
